theory Spec2Isabelle
  imports Complex_Main "HOL-Library.AList" "HOL-Library.Log_Nat"
begin

section \<open>The SQLite storage of the model organizer\<close>

text \<open>
  A shallow embedding of \<^verbatim>\<open>scripts/mo/data/sqlite_storage.py\<close>. The database file is a
  record of its four tables; every method of \<^verbatim>\<open>SQLiteStorage\<close> is a function that takes
  the committed database and returns the new one. A method that can raise returns a
  \<open>result\<close>: \<open>Raise\<close> carries the exception and the database as the exception leaves it,
  \<open>Return\<close> the returned value and the database after the commit.
\<close>

subsection \<open>Python strings\<close>

text \<open>A Python str is a \<open>string\<close>, a list of 8-bit characters. \<^verbatim>\<open>str.lower\<close> is taken on the
  ASCII letters; every other character is left as it is.\<close>

definition char_lower :: "char \<Rightarrow> char" where
  "char_lower c =
     (case map_of (zip ''ABCDEFGHIJKLMNOPQRSTUVWXYZ'' ''abcdefghijklmnopqrstuvwxyz'') c of
        None \<Rightarrow> c
      | Some l \<Rightarrow> l)"

definition str_lower :: "string \<Rightarrow> string" where
  "str_lower s = map char_lower s"

text \<open>\<^verbatim>\<open>sep.join(xs)\<close> and \<^verbatim>\<open>s.split(sep)\<close> for a separator of one character. Splitting
  the empty string gives one empty piece, as in Python.\<close>

fun join :: "char \<Rightarrow> string list \<Rightarrow> string" where
  "join sep [] = []"
| "join sep [x] = x"
| "join sep (x # y # ys) = x @ sep # join sep (y # ys)"

fun split :: "char \<Rightarrow> string \<Rightarrow> string list" where
  "split sep [] = [[]]"
| "split sep (c # cs) =
     (if c = sep then [] # split sep cs
      else (case split sep cs of
              [] \<Rightarrow> [[c]]
            | w # ws \<Rightarrow> (c # w) # ws))"

subsection \<open>Rows and tables\<close>

text \<open>
  A row of table \<^verbatim>\<open>Record\<close>, in the column order of \<^verbatim>\<open>CREATE TABLE Record\<close>: the field
  for \<^verbatim>\<open>row[k]\<close> is the k-th below. Every cell is nullable (\<open>None\<close> is SQL NULL and
  Python \<^verbatim>\<open>None\<close>). A text is a \<open>string\<close>: every str of the type has a UTF-8 encoding, so
  \<^verbatim>\<open>sqlite3\<close> binds it and returns it as it is (a str with a lone surrogate, for which the
  binding raises \<^verbatim>\<open>UnicodeEncodeError\<close>, is no value of the type). The cell of the \<^verbatim>\<open>REAL\<close>
  column is a finite float, as the real number it denotes.
\<close>

record row =
  col_id :: "int option"                 \<comment> \<open>row[0], INTEGER PRIMARY KEY\<close>
  col_name :: "string option"            \<comment> \<open>row[1]\<close>
  col_model_type :: "string option"      \<comment> \<open>row[2]\<close>
  col_download_url :: "string option"    \<comment> \<open>row[3]\<close>
  col_url :: "string option"             \<comment> \<open>row[4]\<close>
  col_download_path :: "string option"   \<comment> \<open>row[5]\<close>
  col_download_filename :: "string option" \<comment> \<open>row[6]\<close>
  col_preview_url :: "string option"     \<comment> \<open>row[7]\<close>
  col_description :: "string option"     \<comment> \<open>row[8]\<close>
  col_positive_prompts :: "string option" \<comment> \<open>row[9]\<close>
  col_negative_prompts :: "string option" \<comment> \<open>row[10]\<close>
  col_sha256_hash :: "string option"     \<comment> \<open>row[11]\<close>
  col_md5_hash :: "string option"        \<comment> \<open>row[12]\<close>
  col_created_at :: "int option"         \<comment> \<open>row[13], INTEGER\<close>
  col_groups :: "string option"          \<comment> \<open>row[14]\<close>
  col_subdir :: "string option"          \<comment> \<open>row[15]\<close>
  col_location :: "string option"        \<comment> \<open>row[16]\<close>
  col_weight :: "real option"            \<comment> \<open>row[17], REAL\<close>
  col_backup_url :: "string option"      \<comment> \<open>row[18]\<close>

text \<open>
  The database file. \<open>Tag_rows\<close> holds (id, name), \<open>TagSet_rows\<close> holds
  (record_id, tag_id), \<open>Version_rows\<close> the rows of table \<^verbatim>\<open>Version\<close>, and
  \<open>Record_columns\<close> the column names of table \<^verbatim>\<open>Record\<close>, which the migrations change.
\<close>

record database =
  Record_columns :: "string list"
  Record_rows :: "row list"
  Tag_rows :: "(int \<times> string) list"
  TagSet_rows :: "(int \<times> int) list"
  Version_rows :: "int list"

datatype error =
    IntegrityError        \<comment> \<open>sqlite3.IntegrityError: UNIQUE constraint failed\<close>
  | ProgrammingError      \<comment> \<open>sqlite3.ProgrammingError: Incorrect number of bindings supplied\<close>
  | OperationalError      \<comment> \<open>sqlite3.OperationalError: syntax error, duplicate or missing column\<close>
  | OverflowError         \<comment> \<open>Python int too large to convert to SQLite INTEGER\<close>
  | Missing_migration int \<comment> \<open>Exception('Missing SQLite migration from {ver} to 8')\<close>

datatype ('a, 's) result = Raise error 's | Return 'a 's

text \<open>The database that a call leaves, whether it returns or raises.\<close>

definition state_of :: "('a, 's) result \<Rightarrow> 's" where
  "state_of r = (case r of Raise e s \<Rightarrow> s | Return v s \<Rightarrow> s)"

text \<open>
  \<^verbatim>\<open>cursor.lastrowid\<close> after an insert into a table with an \<^verbatim>\<open>INTEGER PRIMARY KEY\<close> and no
  explicit id: one more than the largest id of the table, 1 for an empty table.
\<close>

definition next_rowid :: "int list \<Rightarrow> int" where
  "next_rowid ids = (if ids = [] then 1 else Max (set ids) + 1)"

subsection \<open>Tags\<close>

text \<open>\<^verbatim>\<open>get_all_tags\<close>: \<^verbatim>\<open>SELECT name from Tag\<close>, the non-empty names lower-cased, as a set
  (a list without duplicates here; Python leaves the order open).\<close>

definition get_all_tags :: "database \<Rightarrow> string list" where
  "get_all_tags db = remdups [str_lower n. (i, n) \<leftarrow> Tag_rows db, n \<noteq> []]"

text \<open>\<^verbatim>\<open>add_tag\<close>: \<^verbatim>\<open>INSERT INTO Tag(name) VALUES(?)\<close> with the lower-cased name. Column
  \<^verbatim>\<open>name\<close> is \<^verbatim>\<open>UNIQUE\<close>, so the insert raises when a row with that name exists.\<close>

definition add_tag :: "string \<Rightarrow> database \<Rightarrow> (int, database) result" where
  "add_tag tag db =
     (let tag = str_lower tag in
      if tag \<in> snd ` set (Tag_rows db) then Raise IntegrityError db
      else let tag_id = next_rowid (map fst (Tag_rows db))
           in Return tag_id (db\<lparr>Tag_rows := Tag_rows db @ [(tag_id, tag)]\<rparr>))"

text \<open>\<^verbatim>\<open>get_tags_for_record\<close>: \<^verbatim>\<open>Tag JOIN TagSet ON t.id = ts.tag_id WHERE ts.record_id = ?\<close>.\<close>

definition get_tags_for_record :: "int \<Rightarrow> database \<Rightarrow> string list" where
  "get_tags_for_record record_id db =
     [str_lower n. (i, n) \<leftarrow> Tag_rows db, (r, t) \<leftarrow> TagSet_rows db,
                   i = t \<and> r = record_id, n \<noteq> []]"

text \<open>The loop \<^verbatim>\<open>for tag in new_tags: tag_name_to_id[tag] = self.add_tag(tag)\<close>; the
  dictionary is an association list. It stops at the first exception, and the tags added
  before it stay: \<^verbatim>\<open>add_tag\<close> commits each insert.\<close>

fun add_new_tags ::
  "string list \<Rightarrow> (string \<times> int) list \<Rightarrow> database \<Rightarrow> ((string \<times> int) list, database) result"
where
  "add_new_tags [] tag_name_to_id db = Return tag_name_to_id db"
| "add_new_tags (tag # rest) tag_name_to_id db =
     (case add_tag tag db of
        Raise e db' \<Rightarrow> Raise e db'
      | Return tag_id db' \<Rightarrow> add_new_tags rest (AList.update tag tag_id tag_name_to_id) db')"

text \<open>\<^verbatim>\<open>SELECT id, name FROM Tag WHERE name IN (...)\<close> and the loop storing
  \<^verbatim>\<open>tag_name_to_id[row[1]] = row[0]\<close>.\<close>

definition select_existing ::
  "string list \<Rightarrow> (string \<times> int) list \<Rightarrow> database \<Rightarrow> (string \<times> int) list"
where
  "select_existing existing_tags tag_name_to_id db =
     fold (\<lambda>(i, n) d. AList.update n i d)
          [(i, n) \<leftarrow> Tag_rows db. n \<in> set existing_tags] tag_name_to_id"

text \<open>\<^verbatim>\<open>DELETE FROM Tag WHERE id NOT IN (SELECT DISTINCT tag_id FROM TagSet)\<close>.\<close>

definition delete_orphan_tags :: "database \<Rightarrow> database" where
  "delete_orphan_tags db =
     db\<lparr>Tag_rows := [(i, n) \<leftarrow> Tag_rows db. i \<in> snd ` set (TagSet_rows db)]\<rparr>"

text \<open>\<^verbatim>\<open>set_tags_for_record\<close>. The Python sets \<^verbatim>\<open>new_tags\<close> and \<^verbatim>\<open>existing_tags\<close> are lists
  without duplicates, in the order of the argument.\<close>

definition set_tags_for_record :: "int \<Rightarrow> string list \<Rightarrow> database \<Rightarrow> (unit, database) result" where
  "set_tags_for_record record_id tag_list db =
     (let tag_list = [str_lower t. t \<leftarrow> tag_list, t \<noteq> []];
          current_tags_names = get_tags_for_record record_id db;
          new_tags = [t \<leftarrow> remdups tag_list. t \<notin> set current_tags_names];
          existing_tags = [t \<leftarrow> remdups tag_list. t \<in> set current_tags_names]
      in case add_new_tags new_tags [] db of
           Raise e db' \<Rightarrow> Raise e db'
         | Return tag_name_to_id db1 \<Rightarrow>
             let tag_name_to_id =
                   (if existing_tags \<noteq> [] then select_existing existing_tags tag_name_to_id db1
                    else tag_name_to_id);
                 db2 = db1\<lparr>TagSet_rows := [(r, t) \<leftarrow> TagSet_rows db1. r \<noteq> record_id]\<rparr>;
                 db3 = db2\<lparr>TagSet_rows :=
                             TagSet_rows db2 @ map (\<lambda>(tag_name, tag_id). (record_id, tag_id)) tag_name_to_id\<rparr>
             in Return () (delete_orphan_tags db3))"

subsection \<open>Records\<close>

text \<open>
  The entity \<^verbatim>\<open>Record\<close> of \<^verbatim>\<open>scripts.mo.models\<close>, with the fields that
  \<^verbatim>\<open>map_row_to_record\<close> passes to its constructor. The enumeration \<^verbatim>\<open>ModelType\<close> of that
  module is the type parameter \<open>'m\<close>, and \<^verbatim>\<open>ModelType.by_value\<close> and \<^verbatim>\<open>.value\<close> are the
  parameters \<open>by_value\<close> and \<open>mt_value\<close> of the functions below.
\<close>

text \<open>
  The Python value of \<^verbatim>\<open>weight\<close>: an int, a finite float (as the real number it denotes) or
  the float \<^verbatim>\<open>nan\<close>. The two infinite floats are left out; the column stores and returns
  them as they are.
\<close>

datatype number = PyInt int | PyFloat real | PyNaN

record 'm Record =
  id' :: "int option"
  name :: "string option"
  model_type :: 'm
  download_url :: "string option"
  url :: "string option"
  download_path :: "string option"
  download_filename :: "string option"
  preview_url :: "string option"
  description :: "string option"
  positive_prompts :: "string option"
  negative_prompts :: "string option"
  sha256_hash :: "string option"
  md5_hash :: "string option"
  created_at :: "int option"
  groups :: "string list"
  subdir :: "string option"
  location :: "string option"
  weight :: "number option"
  backup_url :: "string option"

text \<open>
  A row as the read queries select it: the columns \<^verbatim>\<open>r.*\<close> and then, as \<^verbatim>\<open>row[19]\<close>,
  the column \<^verbatim>\<open>GROUP_CONCAT(t.name, ',') AS tags\<close>.
\<close>

type_synonym selected_row = "row \<times> string option"

text \<open>\<^verbatim>\<open>map_row_to_record\<close>. It reads \<^verbatim>\<open>row[0]\<close> to \<^verbatim>\<open>row[18]\<close>; \<^verbatim>\<open>row[14]\<close> is column
  \<^verbatim>\<open>groups\<close>.\<close>

definition map_row_to_record :: "(string option \<Rightarrow> 'm) \<Rightarrow> selected_row \<Rightarrow> 'm Record" where
  "map_row_to_record by_value selected =
     (let row = fst selected in
      \<lparr>id' = col_id row,
       name = col_name row,
       model_type = by_value (col_model_type row),
       download_url = col_download_url row,
       url = col_url row,
       download_path = col_download_path row,
       download_filename = col_download_filename row,
       preview_url = col_preview_url row,
       description = col_description row,
       positive_prompts = col_positive_prompts row,
       negative_prompts = col_negative_prompts row,
       sha256_hash = col_sha256_hash row,
       md5_hash = col_md5_hash row,
       created_at = col_created_at row,
       groups = (case col_groups row of
                   None \<Rightarrow> []
                 | Some g \<Rightarrow> if g \<noteq> [] then split CHR '','' g else []),
       subdir = col_subdir row,
       location = col_location row,
       weight = map_option PyFloat (col_weight row),
       backup_url = col_backup_url row\<rparr>)"

subsection \<open>The read queries\<close>

text \<open>
  \<^verbatim>\<open>FROM Record r LEFT JOIN TagSet ts ON r.id = ts.record_id LEFT JOIN Tag t ON t.id = ts.tag_id\<close>:
  every Record row with the name of each tag joined to it, and with NULL where nothing
  joins.
\<close>

definition joined_rows :: "database \<Rightarrow> row \<Rightarrow> (row \<times> string option) list" where
  "joined_rows db r =
     (let ts = [t. (rid, t) \<leftarrow> TagSet_rows db, Some rid = col_id r]
      in if ts = [] then [(r, None)]
         else concat (map (\<lambda>t.
                let names = [n. (i, n) \<leftarrow> Tag_rows db, i = t]
                in if names = [] then [(r, None)] else map (\<lambda>n. (r, Some n)) names) ts))"

definition left_join :: "database \<Rightarrow> (row \<times> string option) list" where
  "left_join db = concat (map (joined_rows db) (Record_rows db))"

text \<open>\<^verbatim>\<open>GROUP_CONCAT(t.name, ',')\<close>: the non-NULL names joined, NULL when there is none.\<close>

definition group_concat :: "string option list \<Rightarrow> string option" where
  "group_concat xs =
     (let names = [n. Some n \<leftarrow> xs] in if names = [] then None else Some (join CHR '','' names))"

text \<open>\<^verbatim>\<open>GROUP BY r.id\<close>: one row for each id, with the columns \<^verbatim>\<open>r.*\<close> of a row of the
  group (they are the same in all of them when the ids are unique) and the aggregate.\<close>

definition group_by_id :: "(row \<times> string option) list \<Rightarrow> selected_row list" where
  "group_by_id js =
     map (\<lambda>i. let g = [j \<leftarrow> js. col_id (fst j) = i] in (fst (hd g), group_concat (map snd g)))
         (remdups (map (\<lambda>j. col_id (fst j)) js))"

definition get_all_records :: "(string option \<Rightarrow> 'm) \<Rightarrow> database \<Rightarrow> 'm Record list" where
  "get_all_records by_value db = map (map_row_to_record by_value) (group_by_id (left_join db))"

definition null_row :: row where
  "null_row =
     \<lparr>col_id = None, col_name = None, col_model_type = None, col_download_url = None,
      col_url = None, col_download_path = None, col_download_filename = None,
      col_preview_url = None, col_description = None, col_positive_prompts = None,
      col_negative_prompts = None, col_sha256_hash = None, col_md5_hash = None,
      col_created_at = None, col_groups = None, col_subdir = None, col_location = None,
      col_weight = None, col_backup_url = None\<rparr>"

text \<open>
  \<^verbatim>\<open>get_record_by_id\<close>. Its query has the aggregate and no \<^verbatim>\<open>GROUP BY\<close>, so SQLite
  returns exactly one row: the rows with that id as one group, and a row of NULLs when no
  row has the id. \<^verbatim>\<open>fetchone()\<close> is therefore never \<^verbatim>\<open>None\<close>.
\<close>

definition get_record_by_id :: "(string option \<Rightarrow> 'm) \<Rightarrow> int \<Rightarrow> database \<Rightarrow> 'm Record option" where
  "get_record_by_id by_value i db =
     (let js = [j \<leftarrow> left_join db. col_id (fst j) = Some i];
          fetchone = Some (if js = [] then (null_row, None)
                           else (fst (hd js), group_concat (map snd js)))
      in case fetchone of
           None \<Rightarrow> None
         | Some row \<Rightarrow> Some (map_row_to_record by_value row))"

subsection \<open>The composed query\<close>

text \<open>
  The conditions that \<^verbatim>\<open>query_records\<close> appends after \<^verbatim>\<open>WHERE\<close>, joined by \<^verbatim>\<open>AND\<close>:
  \<^item> \<open>Name_like_literal\<close> is the text \<^verbatim>\<open>LOWER(r.name) LIKE '%?%'\<close>. The question mark is
    inside a string literal: the condition has no placeholder, and compares the name
    with the pattern \<^verbatim>\<open>%?%\<close>.
  \<^item> \<open>Model_type_in n\<close> is \<^verbatim>\<open>(r.model_type=? OR ... OR r.model_type=?)\<close> with n placeholders.
  \<^item> \<open>Tag_like_bare\<close> is the text \<^verbatim>\<open>t.name LIKE %?%\<close>, which is not an SQL expression.
\<close>

datatype condition = Name_like_literal | Model_type_in nat | Tag_like_bare

fun placeholders :: "condition list \<Rightarrow> nat" where
  "placeholders [] = 0"
| "placeholders (Name_like_literal # cs) = placeholders cs"
| "placeholders (Model_type_in n # cs) = n + placeholders cs"
| "placeholders (Tag_like_bare # cs) = 1 + placeholders cs"

text \<open>The conditions on a row, with the parameters bound to the placeholders in order.\<close>

fun where_holds :: "condition list \<Rightarrow> string list \<Rightarrow> row \<Rightarrow> bool" where
  "where_holds [] params r = True"
| "where_holds (Name_like_literal # cs) params r =
     ((case col_name r of None \<Rightarrow> False | Some n \<Rightarrow> CHR ''?'' \<in> set n) \<and> where_holds cs params r)"
| "where_holds (Model_type_in n # cs) params r =
     ((case col_model_type r of None \<Rightarrow> False | Some m \<Rightarrow> m \<in> set (take n params))
      \<and> where_holds cs (drop n params) r)"
| "where_holds (Tag_like_bare # cs) params r = False"

text \<open>
  \<^verbatim>\<open>cursor.execute(query, params)\<close> for this family of queries: a statement that does not
  parse raises \<^verbatim>\<open>OperationalError\<close>; a parameter list whose length is not the number of
  placeholders raises \<^verbatim>\<open>ProgrammingError\<close>; otherwise the rows are selected and grouped.
\<close>

definition execute_select :: "condition list \<Rightarrow> string list \<Rightarrow> database \<Rightarrow> error + selected_row list" where
  "execute_select conditions params db =
     (if Tag_like_bare \<in> set conditions then Inl OperationalError
      else if placeholders conditions \<noteq> length params then Inl ProgrammingError
      else Inr (group_by_id [j \<leftarrow> left_join db. where_holds conditions params (fst j)]))"

text \<open>The text of the query, as the three \<^verbatim>\<open>if\<close> blocks build it.\<close>

definition query_conditions ::
  "string option \<Rightarrow> string list option \<Rightarrow> string list option \<Rightarrow> condition list" where
  "query_conditions name_query tag_groups model_types =
     (case name_query of
        None \<Rightarrow> []
      | Some q \<Rightarrow> if q \<noteq> [] then [Name_like_literal] else [])
     @ (case model_types of
          None \<Rightarrow> []
        | Some ms \<Rightarrow> if length ms > 0 then [Model_type_in (length ms)] else [])
     @ (case tag_groups of
          None \<Rightarrow> []
        | Some gs \<Rightarrow> map (\<lambda>group. Tag_like_bare) gs)"

text \<open>The list \<^verbatim>\<open>params\<close>.\<close>

definition query_params ::
  "string option \<Rightarrow> string list option \<Rightarrow> string list option \<Rightarrow> string list" where
  "query_params name_query tag_groups model_types =
     (case name_query of
        None \<Rightarrow> []
      | Some q \<Rightarrow> if q \<noteq> [] then [''%'' @ str_lower q @ ''%''] else [])
     @ (case model_types of None \<Rightarrow> [] | Some ms \<Rightarrow> ms)
     @ (case tag_groups of None \<Rightarrow> [] | Some gs \<Rightarrow> map (\<lambda>g. ''%'' @ str_lower g @ ''%'') gs)"

text \<open>\<^verbatim>\<open>is_downloaded = bool(record.location) and os.path.exists(record.location)\<close>; the
  file system is the predicate \<open>path_exists\<close>.\<close>

definition is_downloaded :: "(string \<Rightarrow> bool) \<Rightarrow> 'm Record \<Rightarrow> bool" where
  "is_downloaded path_exists record =
     (case location record of
        None \<Rightarrow> False
      | Some l \<Rightarrow> l \<noteq> [] \<and> path_exists l)"

text \<open>The loop over the fetched rows.\<close>

fun post_filter :: "(string \<Rightarrow> bool) \<Rightarrow> bool \<Rightarrow> bool \<Rightarrow> 'm Record list \<Rightarrow> 'm Record list" where
  "post_filter path_exists show_downloaded show_not_downloaded [] = []"
| "post_filter path_exists show_downloaded show_not_downloaded (record # rest) =
     (if show_downloaded \<and> is_downloaded path_exists record
        then record # post_filter path_exists show_downloaded show_not_downloaded rest
      else if show_not_downloaded \<and> \<not> is_downloaded path_exists record
        then record # post_filter path_exists show_downloaded show_not_downloaded rest
      else post_filter path_exists show_downloaded show_not_downloaded rest)"

definition query_records ::
  "(string option \<Rightarrow> 'm) \<Rightarrow> (string \<Rightarrow> bool) \<Rightarrow> string option \<Rightarrow> string list option \<Rightarrow>
   string list option \<Rightarrow> bool \<Rightarrow> bool \<Rightarrow> database \<Rightarrow> error + 'm Record list"
where
  "query_records by_value path_exists name_query tag_groups model_types show_downloaded
                 show_not_downloaded db =
     (case execute_select (query_conditions name_query tag_groups model_types)
                          (query_params name_query tag_groups model_types) db of
        Inl e \<Rightarrow> Inl e
      | Inr rows \<Rightarrow>
          Inr (post_filter path_exists show_downloaded show_not_downloaded
                 (map (map_row_to_record by_value) rows)))"

subsection \<open>Writing records\<close>

text \<open>
  A Python int is bound to an SQL parameter as a signed 64-bit INTEGER; binding one
  outside that range raises \<^verbatim>\<open>OverflowError\<close>. The identifiers passed alone to a method
  (\<^verbatim>\<open>get_record_by_id\<close>, \<^verbatim>\<open>remove_record\<close>, the tag methods) are taken to be in range: the
  store assigns them. The ints of a record (\<open>created_at\<close>, \<open>weight\<close>, its id) are any int.
\<close>

definition fits_sqlite_integer :: "int option \<Rightarrow> bool" where
  "fits_sqlite_integer v =
     (case v of
        None \<Rightarrow> True
      | Some n \<Rightarrow> - (2 ^ 63) \<le> n \<and> n < 2 ^ 63)"

text \<open>
  The float that the \<^verbatim>\<open>REAL\<close> column makes of a 64-bit integer: the integer itself up to
  magnitude \<open>2 ^ 53\<close>, and beyond that the integer rounded to 53 significant bits, a tie
  going to the even neighbour.
\<close>

definition double_of_int :: "int \<Rightarrow> real" where
  "double_of_int n =
     (if \<bar>n\<bar> \<le> 2 ^ 53 then real_of_int n
      else
        let q = 2 ^ nat (bitlen \<bar>n\<bar> - 53);
            m = \<bar>n\<bar> div q;
            r = \<bar>n\<bar> mod q;
            rounded = (if 2 * r > q \<or> (2 * r = q \<and> odd m) then m + 1 else m)
        in real_of_int (sgn n * rounded * q))"

text \<open>
  Binding \<^verbatim>\<open>record.weight\<close> to the parameter of the \<^verbatim>\<open>REAL\<close> column \<^verbatim>\<open>weight\<close>: \<^verbatim>\<open>None\<close> is
  NULL, a float is stored as it is except \<^verbatim>\<open>nan\<close>, which SQLite stores as NULL, and an int
  is bound as a 64-bit integer (\<^verbatim>\<open>OverflowError\<close> outside the range) that the column turns
  into a float.
\<close>

definition bind_weight :: "number option \<Rightarrow> error + real option" where
  "bind_weight w =
     (case w of
        None \<Rightarrow> Inr None
      | Some (PyInt n) \<Rightarrow>
          if fits_sqlite_integer (Some n) then Inr (Some (double_of_int n)) else Inl OverflowError
      | Some (PyFloat x) \<Rightarrow> Inr (Some x)
      | Some PyNaN \<Rightarrow> Inr None)"

text \<open>Python's \<^verbatim>\<open>==\<close> on two such numbers: the values are compared, and \<^verbatim>\<open>nan\<close> is equal to
  nothing.\<close>

fun py_eq :: "number \<Rightarrow> number \<Rightarrow> bool" where
  "py_eq (PyInt a) (PyInt b) = (a = b)"
| "py_eq (PyInt a) (PyFloat y) = (real_of_int a = y)"
| "py_eq (PyFloat x) (PyInt b) = (x = real_of_int b)"
| "py_eq (PyFloat x) (PyFloat y) = (x = y)"
| "py_eq PyNaN b = False"
| "py_eq a PyNaN = False"

text \<open>The row that the \<^verbatim>\<open>INSERT\<close> of \<^verbatim>\<open>add_record\<close> writes: the tuple \<^verbatim>\<open>data\<close> in the column
  order of the statement, with the weight as the column stores it, and the id that the
  table assigns.\<close>

definition inserted_row :: "('m \<Rightarrow> string) \<Rightarrow> 'm Record \<Rightarrow> real option \<Rightarrow> int \<Rightarrow> row" where
  "inserted_row mt_value record stored_weight lastrowid =
     \<lparr>col_id = Some lastrowid,
      col_name = name record,
      col_model_type = Some (mt_value (model_type record)),
      col_download_url = download_url record,
      col_url = url record,
      col_download_path = download_path record,
      col_download_filename = download_filename record,
      col_preview_url = preview_url record,
      col_description = description record,
      col_positive_prompts = positive_prompts record,
      col_negative_prompts = negative_prompts record,
      col_sha256_hash = sha256_hash record,
      col_md5_hash = md5_hash record,
      col_created_at = created_at record,
      col_groups = Some (join CHR '','' (groups record)),
      col_subdir = subdir record,
      col_location = location record,
      col_weight = stored_weight,
      col_backup_url = backup_url record\<rparr>"

text \<open>\<^verbatim>\<open>add_record\<close>: the parameters are bound in the order of \<^verbatim>\<open>data\<close>, \<open>created_at\<close> before
  \<open>weight\<close>; when both are bound the row is inserted and \<^verbatim>\<open>cursor.lastrowid\<close> returned.\<close>

definition add_record :: "('m \<Rightarrow> string) \<Rightarrow> 'm Record \<Rightarrow> database \<Rightarrow> (int, database) result" where
  "add_record mt_value record db =
     (if \<not> fits_sqlite_integer (created_at record) then Raise OverflowError db
      else
        case bind_weight (weight record) of
          Inl e \<Rightarrow> Raise e db
        | Inr stored_weight \<Rightarrow>
            let lastrowid = next_rowid [i. Some i \<leftarrow> map col_id (Record_rows db)]
            in Return lastrowid
                 (db\<lparr>Record_rows := Record_rows db @
                      [inserted_row mt_value record stored_weight lastrowid]\<rparr>))"

text \<open>\<^verbatim>\<open>update_record\<close>: the \<^verbatim>\<open>UPDATE ... SET ... WHERE id=?\<close> assigns seventeen columns of
  the rows whose id is \<^verbatim>\<open>record.id_\<close>; a NULL id matches no row. Its parameters are the
  weight and, last, the id; when one cannot be bound the statement is not executed.\<close>

definition update_record :: "('m \<Rightarrow> string) \<Rightarrow> 'm Record \<Rightarrow> database \<Rightarrow> (unit, database) result" where
  "update_record mt_value record db =
     (case bind_weight (weight record) of
        Inl e \<Rightarrow> Raise e db
      | Inr stored_weight \<Rightarrow>
          if \<not> fits_sqlite_integer (id' record) then Raise OverflowError db
          else
            Return ()
              (db\<lparr>Record_rows :=
                   map (\<lambda>r. if id' record \<noteq> None \<and> col_id r = id' record
                             then r\<lparr>col_name := name record,
                                    col_model_type := Some (mt_value (model_type record)),
                                    col_download_url := download_url record,
                                    col_url := url record,
                                    col_download_path := download_path record,
                                    col_download_filename := download_filename record,
                                    col_preview_url := preview_url record,
                                    col_description := description record,
                                    col_positive_prompts := positive_prompts record,
                                    col_negative_prompts := negative_prompts record,
                                    col_sha256_hash := sha256_hash record,
                                    col_md5_hash := md5_hash record,
                                    col_groups := Some (join CHR '','' (groups record)),
                                    col_subdir := subdir record,
                                    col_location := location record,
                                    col_weight := stored_weight,
                                    col_backup_url := backup_url record\<rparr>
                             else r)
                       (Record_rows db)\<rparr>))"

text \<open>
  \<^verbatim>\<open>DELETE FROM Record WHERE id=?\<close>. Table \<^verbatim>\<open>TagSet\<close> declares
  \<^verbatim>\<open>record_id INTEGER REFERENCES Record(id) ON DELETE CASCADE\<close>. SQLite enforces a foreign
  key, and runs its \<^verbatim>\<open>ON DELETE\<close> action, only on a connection where
  \<^verbatim>\<open>PRAGMA foreign_keys\<close> is on; for a new connection it is off. The first argument is the
  value of the pragma on the connection that executes the statement.
\<close>

definition delete_from_Record :: "bool \<Rightarrow> int \<Rightarrow> database \<Rightarrow> database" where
  "delete_from_Record pragma_foreign_keys i db =
     (let deleted = [r \<leftarrow> Record_rows db. col_id r = Some i];
          db' = db\<lparr>Record_rows := [r \<leftarrow> Record_rows db. col_id r \<noteq> Some i]\<rparr>
      in if pragma_foreign_keys \<and> deleted \<noteq> []
         then db'\<lparr>TagSet_rows := [(r, t) \<leftarrow> TagSet_rows db'. r \<noteq> i]\<rparr>
         else db')"

text \<open>\<^verbatim>\<open>_connection\<close> opens the connection with \<^verbatim>\<open>sqlite3.connect(path, timeout)\<close> and
  nothing in the file executes \<^verbatim>\<open>PRAGMA foreign_keys = ON\<close>: the pragma has the value of a
  new connection.\<close>

definition connection_foreign_keys :: bool where
  "connection_foreign_keys = False"

definition remove_record :: "int \<Rightarrow> database \<Rightarrow> database" where
  "remove_record i db = delete_from_Record connection_foreign_keys i db"

subsection \<open>The schema migrations\<close>

text \<open>
  The files that the migrator handles: the database file and, beside it, the backups
  \<^verbatim>\<open>database.sqlite.v<n>.bak\<close>, a partial map from n to the copied content.
\<close>

record storage =
  db_file :: database
  backups :: "int \<Rightarrow> database option"

text \<open>
  The statements of the migrations. \<^verbatim>\<open>ALTER TABLE Record ADD COLUMN c ... DEFAULT d\<close>
  raises when the table has a column c, and otherwise gives every row the default in the
  new column; \<^verbatim>\<open>ALTER TABLE Record RENAME COLUMN a TO b\<close> raises when there is no column a
  or there is a column b. \<^verbatim>\<open>DELETE FROM Version\<close> and \<^verbatim>\<open>INSERT INTO Version VALUES (n)\<close>
  do not raise.
\<close>

definition add_column :: "string \<Rightarrow> (row \<Rightarrow> row) \<Rightarrow> database \<Rightarrow> error + database" where
  "add_column c fill db =
     (if c \<in> set (Record_columns db) then Inl OperationalError
      else Inr (db\<lparr>Record_columns := Record_columns db @ [c],
                  Record_rows := map fill (Record_rows db)\<rparr>))"

definition rename_column :: "string \<Rightarrow> string \<Rightarrow> database \<Rightarrow> error + database" where
  "rename_column a b db =
     (if a \<notin> set (Record_columns db) \<or> b \<in> set (Record_columns db) then Inl OperationalError
      else Inr (db\<lparr>Record_columns := map (\<lambda>c. if c = a then b else c) (Record_columns db)\<rparr>))"

definition delete_from_Version :: "database \<Rightarrow> error + database" where
  "delete_from_Version db = Inr (db\<lparr>Version_rows := []\<rparr>)"

definition insert_into_Version :: "int \<Rightarrow> database \<Rightarrow> error + database" where
  "insert_into_Version n db = Inr (db\<lparr>Version_rows := Version_rows db @ [n]\<rparr>)"

text \<open>
  The statements of one migration in order, ended by the commit. A statement that raises
  ends the migration; the \<^verbatim>\<open>ALTER TABLE\<close> statements before it have taken effect (they run
  outside a transaction), and no statement after the first \<^verbatim>\<open>DELETE\<close> can raise.
\<close>

fun run_statements :: "(database \<Rightarrow> error + database) list \<Rightarrow> database \<Rightarrow> (unit, database) result" where
  "run_statements [] db = Return () db"
| "run_statements (statement # rest) db =
     (case statement db of
        Inl e \<Rightarrow> Raise e db
      | Inr db' \<Rightarrow> run_statements rest db')"

definition migrate_1_to_2 :: "database \<Rightarrow> (unit, database) result" where
  "migrate_1_to_2 =
     run_statements
       [add_column ''created_at'' (\<lambda>r. r\<lparr>col_created_at := Some 0\<rparr>),
        delete_from_Version, insert_into_Version 2]"

definition migrate_2_to_3 :: "database \<Rightarrow> (unit, database) result" where
  "migrate_2_to_3 =
     run_statements
       [add_column ''groups'' (\<lambda>r. r\<lparr>col_groups := Some []\<rparr>),
        delete_from_Version, insert_into_Version 3]"

definition migrate_3_to_4 :: "database \<Rightarrow> (unit, database) result" where
  "migrate_3_to_4 =
     run_statements
       [rename_column ''model_hash'' ''sha256_hash'',
        add_column ''subdir'' (\<lambda>r. r\<lparr>col_subdir := Some []\<rparr>),
        delete_from_Version, insert_into_Version 4]"

definition migrate_4_to_5 :: "database \<Rightarrow> (unit, database) result" where
  "migrate_4_to_5 =
     run_statements
       [add_column ''location'' (\<lambda>r. r\<lparr>col_location := Some []\<rparr>),
        delete_from_Version, insert_into_Version 5]"

definition migrate_5_to_6 :: "database \<Rightarrow> (unit, database) result" where
  "migrate_5_to_6 =
     run_statements
       [add_column ''weight'' (\<lambda>r. r\<lparr>col_weight := Some 1\<rparr>),
        delete_from_Version, insert_into_Version 6]"

definition migrate_6_to_7 :: "database \<Rightarrow> (unit, database) result" where
  "migrate_6_to_7 =
     run_statements
       [add_column ''backup_url'' (\<lambda>r. r\<lparr>col_backup_url := Some []\<rparr>),
        delete_from_Version, insert_into_Version 7]"

text \<open>The two \<^verbatim>\<open>CREATE TABLE IF NOT EXISTS\<close> of \<^verbatim>\<open>_migrate_7_to_8\<close> do nothing: \<^verbatim>\<open>_initialize\<close>
  has created \<^verbatim>\<open>Tag\<close> and \<^verbatim>\<open>TagSet\<close> before it checks the version.\<close>

definition migrate_7_to_8 :: "database \<Rightarrow> (unit, database) result" where
  "migrate_7_to_8 =
     run_statements
       [rename_column ''_name'' ''name'',
        delete_from_Version, insert_into_Version 8]"

definition DB_VERSION :: int where
  "DB_VERSION = 8"

text \<open>\<^verbatim>\<open>_backup_database\<close>: remove the backup of the version before, when \<^verbatim>\<open>migrate_from > 1\<close>
  and that file exists, then copy the database file.\<close>

definition backup_database :: "int \<Rightarrow> storage \<Rightarrow> storage" where
  "backup_database migrate_from st =
     (let last_backup = (if migrate_from > 1 then Some (migrate_from - 1) else None);
          removed = (case last_backup of
                       None \<Rightarrow> backups st
                     | Some l \<Rightarrow> if backups st l \<noteq> None then (backups st)(l := None)
                                 else backups st)
      in st\<lparr>backups := removed(migrate_from \<mapsto> db_file st)\<rparr>)"

text \<open>The loop of \<^verbatim>\<open>_run_migration\<close> over the versions of \<^verbatim>\<open>range(current_version, _DB_VERSION)\<close>,
  for a dictionary of migrations.\<close>

fun migration_loop ::
  "(int \<Rightarrow> (database \<Rightarrow> (unit, database) result) option) \<Rightarrow> int list \<Rightarrow> storage \<Rightarrow>
   (unit, storage) result"
where
  "migration_loop migrations [] st = Return () st"
| "migration_loop migrations (ver # rest) st =
     (let st1 = backup_database ver st in
      case migrations ver of
        None \<Rightarrow> Raise (Missing_migration ver) st1
      | Some migration \<Rightarrow>
          (case migration (db_file st1) of
             Raise e db' \<Rightarrow> Raise e (st1\<lparr>db_file := db'\<rparr>)
           | Return u db' \<Rightarrow> migration_loop migrations rest (st1\<lparr>db_file := db'\<rparr>)))"

definition migration_map :: "int \<Rightarrow> (database \<Rightarrow> (unit, database) result) option" where
  "migration_map =
     [1 \<mapsto> migrate_1_to_2, 2 \<mapsto> migrate_2_to_3, 3 \<mapsto> migrate_3_to_4, 4 \<mapsto> migrate_4_to_5,
      5 \<mapsto> migrate_5_to_6, 6 \<mapsto> migrate_6_to_7, 7 \<mapsto> migrate_7_to_8]"

definition run_migration :: "int \<Rightarrow> storage \<Rightarrow> (unit, storage) result" where
  "run_migration current_version st =
     migration_loop migration_map [current_version..DB_VERSION - 1] st"

text \<open>\<^verbatim>\<open>_check_database_version\<close>: \<^verbatim>\<open>fetchone()\<close> is the first row of \<^verbatim>\<open>Version\<close>.\<close>

definition check_database_version :: "storage \<Rightarrow> (unit, storage) result" where
  "check_database_version st =
     (case Version_rows (db_file st) of
        [] \<Rightarrow> Return () (st\<lparr>db_file := (db_file st)\<lparr>Version_rows := [DB_VERSION]\<rparr>\<rparr>)
      | version # others \<Rightarrow>
          if version \<noteq> DB_VERSION then run_migration version st else Return () st)"

section \<open>Example stores\<close>

text \<open>The columns of table \<^verbatim>\<open>Record\<close> and the tables as \<^verbatim>\<open>_initialize\<close> creates them in a new
  file, with the row that \<^verbatim>\<open>_check_database_version\<close> inserts into \<^verbatim>\<open>Version\<close>.\<close>

definition current_columns :: "string list" where
  "current_columns =
     [''id'', ''name'', ''model_type'', ''download_url'', ''url'', ''download_path'',
      ''download_filename'', ''preview_url'', ''description'', ''positive_prompts'',
      ''negative_prompts'', ''sha256_hash'', ''md5_hash'', ''created_at'', ''groups'',
      ''subdir'', ''location'', ''weight'', ''backup_url'']"

definition new_database :: database where
  "new_database =
     \<lparr>Record_columns = current_columns, Record_rows = [], Tag_rows = [], TagSet_rows = [],
      Version_rows = [8]\<rparr>"

text \<open>In the examples a model type is its own value: \<open>'m\<close> is \<open>string\<close>.\<close>

definition example_value :: "string \<Rightarrow> string" where
  "example_value m = m"

definition example_by_value :: "string option \<Rightarrow> string" where
  "example_by_value v = (case v of None \<Rightarrow> [] | Some m \<Rightarrow> m)"

definition example_record :: "string Record" where
  "example_record =
     \<lparr>id' = None, name = Some ''Anime V1'', model_type = ''checkpoint'',
      download_url = Some ''https://example.org/a.safetensors'', url = Some [],
      download_path = Some [], download_filename = Some [], preview_url = Some [],
      description = Some [], positive_prompts = Some [], negative_prompts = Some [],
      sha256_hash = Some [], md5_hash = Some [], created_at = Some 0, groups = [],
      subdir = Some [], location = Some [], weight = Some (PyFloat 1), backup_url = Some []\<rparr>"

text \<open>A record with two groups, and one whose only group is the empty name.\<close>

definition lora_record :: "string Record" where
  "lora_record = example_record\<lparr>name := Some ''Dragon LoRA'', groups := [''style'', ''lora'']\<rparr>"

definition unnamed_group_record :: "string Record" where
  "unnamed_group_record = example_record\<lparr>groups := [[]]\<rparr>"

text \<open>Records with a \<open>created_at\<close> of \<open>2 ^ 63\<close>, with the int weights \<open>2 ^ 53 + 1\<close> and
  \<open>2 ^ 63\<close>, and with the weight \<^verbatim>\<open>nan\<close>.\<close>

definition late_record :: "string Record" where
  "late_record = example_record\<lparr>created_at := Some (2 ^ 63)\<rparr>"

definition heavy_record :: "string Record" where
  "heavy_record = example_record\<lparr>weight := Some (PyInt (2 ^ 53 + 1))\<rparr>"

definition heavier_record :: "string Record" where
  "heavier_record = example_record\<lparr>weight := Some (PyInt (2 ^ 63))\<rparr>"

definition nan_record :: "string Record" where
  "nan_record = example_record\<lparr>weight := Some PyNaN\<rparr>"

text \<open>A store with the records 1 and 2, and the same store after
  \<^verbatim>\<open>set_tags_for_record(1, ['x'])\<close>.\<close>

definition two_records :: database where
  "two_records =
     state_of (add_record example_value lora_record
       (state_of (add_record example_value example_record new_database)))"

definition two_records_x :: database where
  "two_records_x = state_of (set_tags_for_record 1 [''x''] two_records)"

text \<open>The example store with a third record whose location is a file that exists.\<close>

definition example_exists :: "string \<Rightarrow> bool" where
  "example_exists p = (p = ''/models/on_disk.safetensors'')"


text \<open>Record 1 of the example store with another name and another \<open>created_at\<close>.\<close>

definition renamed_record :: "string Record" where
  "renamed_record = example_record\<lparr>id' := Some 1, name := Some ''Renamed'', created_at := Some 99\<rparr>"

text \<open>
  A database of schema version 1, with the columns that the migrations expect of it (the
  columns of today without those the migrations add, under the names they rename), and
  no backup beside it; the storage after \<^verbatim>\<open>_run_migration(1)\<close>.
\<close>

definition legacy_columns :: "string list" where
  "legacy_columns =
     [''id'', ''_name'', ''model_type'', ''download_url'', ''url'', ''download_path'',
      ''download_filename'', ''preview_url'', ''description'', ''positive_prompts'',
      ''negative_prompts'', ''model_hash'', ''md5_hash'']"

definition storage_v1 :: storage where
  "storage_v1 =
     \<lparr>db_file = \<lparr>Record_columns = legacy_columns, Record_rows = [], Tag_rows = [],
                  TagSet_rows = [], Version_rows = [1]\<rparr>,
      backups = Map.empty\<rparr>"

definition migrated_v1 :: storage where
  "migrated_v1 = state_of (run_migration 1 storage_v1)"

text \<open>The dictionary of migrations without the entry for version 6, and the storage after
  the loop over the versions 1 to 5 with it.\<close>

definition map_without_6 :: "int \<Rightarrow> (database \<Rightarrow> (unit, database) result) option" where
  "map_without_6 = migration_map(6 := None)"

definition storage_v6 :: storage where
  "storage_v6 = state_of (migration_loop map_without_6 [1..5] storage_v1)"

text \<open>The storage after \<^verbatim>\<open>_run_migration(6)\<close> on that storage of version 6, which has the
  backup of version 5 beside it.\<close>

definition migrated_v6 :: storage where
  "migrated_v6 = state_of (run_migration 6 storage_v6)"

text \<open>The database of version 6 beside one backup file, of version 3, and the storage after
  \<^verbatim>\<open>_run_migration(6)\<close> on it.\<close>

definition stale_v6 :: storage where
  "stale_v6 = storage_v6\<lparr>backups := [3 \<mapsto> db_file storage_v1]\<rparr>"

definition migrated_stale_v6 :: storage where
  "migrated_stale_v6 = state_of (run_migration 6 stale_v6)"

section \<open>Properties\<close>

subsection \<open>The example stores, evaluated\<close>

lemma str_lower_x: "str_lower ''x'' = ''x''"
  by (simp add: str_lower_def char_lower_def)

lemmas tag_defs =
  set_tags_for_record_def get_tags_for_record_def get_all_tags_def add_tag_def next_rowid_def
  str_lower_def char_lower_def delete_orphan_tags_def select_existing_def

lemmas example_defs =
  two_records_def two_records_x_def state_of_def add_record_def inserted_row_def
  new_database_def lora_record_def
  example_record_def example_value_def fits_sqlite_integer_def bind_weight_def double_of_int_def

lemma two_records_tables:
  "Tag_rows two_records = []" "TagSet_rows two_records = []"
  "map col_id (Record_rows two_records) = [Some 1, Some 2]"
  by (simp_all add: example_defs next_rowid_def)

lemma two_records_x_tables:
  "Tag_rows two_records_x = [(1, ''x'')]" "TagSet_rows two_records_x = [(1, 1)]"
  "map col_id (Record_rows two_records_x) = [Some 1, Some 2]"
  by (simp_all add: example_defs tag_defs)

lemma set_tags_two_records:
  "set_tags_for_record 1 [''x''] two_records = Return () two_records_x"
  by (simp add: example_defs tag_defs)

subsection \<open>Tag reuse\<close>

text \<open>
  C1. After \<^verbatim>\<open>set_tags_for_record(1, ['x'])\<close> on a store with the records 1 and 2 there is
  one Tag row, named x, joined to record 1. \<^verbatim>\<open>set_tags_for_record(2, ['x'])\<close> then does not
  succeed: x is not among the tags of record 2, so it counts as new, \<^verbatim>\<open>add_tag\<close> inserts
  it again and the UNIQUE column raises \<^verbatim>\<open>IntegrityError\<close>. The store is left as it was and
  record 2 has no tag.
\<close>

theorem set_tags_for_second_record_raises:
  "set_tags_for_record 1 [''x''] two_records = Return () two_records_x
   \<and> get_tags_for_record 1 two_records_x = [''x'']
   \<and> get_all_tags two_records_x = [''x'']
   \<and> set_tags_for_record 2 [''x''] two_records_x = Raise IntegrityError two_records_x
   \<and> get_tags_for_record 2 two_records_x = []"
proof -
  have "get_tags_for_record 1 two_records_x = [''x'']"
    by (simp add: get_tags_for_record_def two_records_x_tables str_lower_x)
  moreover have "get_all_tags two_records_x = [''x'']"
    by (simp add: get_all_tags_def two_records_x_tables str_lower_x)
  moreover have "get_tags_for_record 2 two_records_x = []"
    by (simp add: get_tags_for_record_def two_records_x_tables)
  moreover have "set_tags_for_record 2 [''x''] two_records_x = Raise IntegrityError two_records_x"
    by (simp add: set_tags_for_record_def get_tags_for_record_def two_records_x_tables
        str_lower_x add_tag_def)
  ultimately show ?thesis
    using set_tags_two_records by blast
qed

subsection \<open>Orphan tags\<close>

lemma char_lower_idem: "char_lower (char_lower c) = char_lower c"
  by (auto simp: char_lower_def split: if_splits)

lemma str_lower_idem: "str_lower (str_lower s) = str_lower s"
  by (simp add: str_lower_def char_lower_idem)

lemma all_tags_lower: "y \<in> set (get_all_tags db) \<Longrightarrow> str_lower y = y"
  by (auto simp: get_all_tags_def str_lower_idem)

text \<open>With the empty list, \<^verbatim>\<open>set_tags_for_record\<close> adds no tag: it deletes the associations
  of the record and then the tags without association.\<close>

lemma set_tags_empty:
  "set_tags_for_record a [] db =
     Return () (delete_orphan_tags (db\<lparr>TagSet_rows := [(r, t) \<leftarrow> TagSet_rows db. r \<noteq> a]\<rparr>))"
  by (simp add: set_tags_for_record_def)

text \<open>A Tag row that is still there afterwards is joined to another record.\<close>

lemma tag_kept_after_clearing:
  assumes "(i, n) \<in> set (Tag_rows (delete_orphan_tags
             (db\<lparr>TagSet_rows := [(r, t) \<leftarrow> TagSet_rows db. r \<noteq> a]\<rparr>)))"
      and "n \<noteq> []"
  shows "\<exists>r. r \<noteq> a \<and> str_lower n \<in> set (get_tags_for_record r db)"
  using assms by (force simp: delete_orphan_tags_def get_tags_for_record_def)

text \<open>
  C5. Let \<^verbatim>\<open>set_tags_for_record(a, [x])\<close> return and leave the store \<open>db1\<close>, in which no
  record other than a has the tag x. Then \<^verbatim>\<open>set_tags_for_record(a, [])\<close> returns, and
  \<^verbatim>\<open>get_all_tags\<close> of the store it leaves contains neither x nor its lower-cased form.
\<close>

theorem orphan_tag_collected:
  assumes "set_tags_for_record a [x] db = Return u db1"
      and "\<forall>r. r \<noteq> a \<longrightarrow> str_lower x \<notin> set (get_tags_for_record r db1)"
  shows "\<exists>db2. set_tags_for_record a [] db1 = Return () db2
               \<and> str_lower x \<notin> set (get_all_tags db2) \<and> x \<notin> set (get_all_tags db2)"
proof -
  let ?db2 = "delete_orphan_tags (db1\<lparr>TagSet_rows := [(r, t) \<leftarrow> TagSet_rows db1. r \<noteq> a]\<rparr>)"
  have gone: "str_lower x \<notin> set (get_all_tags ?db2)"
  proof
    assume "str_lower x \<in> set (get_all_tags ?db2)"
    then obtain i n where in_tags: "(i, n) \<in> set (Tag_rows ?db2)" and "n \<noteq> []"
      and "str_lower x = str_lower n"
      by (auto simp: get_all_tags_def)
    with tag_kept_after_clearing [OF in_tags] assms(2) show False
      by auto
  qed
  moreover have "x \<notin> set (get_all_tags ?db2)"
    using gone all_tags_lower by fastforce
  ultimately show ?thesis
    by (simp add: set_tags_empty)
qed

text \<open>On the example store: x is a tag after the first call and no tag after the second.\<close>

theorem orphan_tag_collected_witness:
  "set_tags_for_record 1 [''x''] two_records = Return () two_records_x
   \<and> \<not> (\<exists>r. r \<noteq> 1 \<and> str_lower ''x'' \<in> set (get_tags_for_record r two_records_x))
   \<and> ''x'' \<in> set (get_all_tags two_records_x)
   \<and> (\<exists>db2. set_tags_for_record 1 [] two_records_x = Return () db2
          \<and> str_lower ''x'' \<notin> set (get_all_tags db2) \<and> ''x'' \<notin> set (get_all_tags db2))"
proof -
  have h: "\<forall>r. r \<noteq> 1 \<longrightarrow> str_lower ''x'' \<notin> set (get_tags_for_record r two_records_x)"
    by (simp add: get_tags_for_record_def two_records_x_tables)
  have "''x'' \<in> set (get_all_tags two_records_x)"
    by (simp add: get_all_tags_def two_records_x_tables str_lower_x)
  with h orphan_tag_collected [OF set_tags_two_records h] set_tags_two_records show ?thesis
    by blast
qed

subsection \<open>Removing a record\<close>

text \<open>\<^verbatim>\<open>remove_record\<close> changes table \<^verbatim>\<open>Record\<close> only. On a connection with the pragma
  on, the same statement would delete the associations of a deleted record.\<close>

lemma remove_record_TagSet: "TagSet_rows (remove_record i db) = TagSet_rows db"
  by (simp add: remove_record_def connection_foreign_keys_def delete_from_Record_def)

lemma cascade_when_enabled:
  "Some i \<in> col_id ` set (Record_rows db) \<Longrightarrow>
     (i, t) \<notin> set (TagSet_rows (delete_from_Record True i db))"
  by (auto simp: delete_from_Record_def Let_def filter_empty_conv)

text \<open>
  C6. In the example store record 1 has the tag x through the TagSet row (1, 1).
  \<^verbatim>\<open>remove_record(1)\<close> deletes the Record row, and the TagSet row whose \<^verbatim>\<open>record_id\<close> is 1
  is still in the store: \<^verbatim>\<open>get_tags_for_record(1)\<close> still answers x for the removed record.
\<close>

theorem remove_record_leaves_associations:
  "map col_id (Record_rows two_records_x) = [Some 1, Some 2]
   \<and> TagSet_rows two_records_x = [(1, 1)]
   \<and> map col_id (Record_rows (remove_record 1 two_records_x)) = [Some 2]
   \<and> TagSet_rows (remove_record 1 two_records_x) = [(1, 1)]
   \<and> get_tags_for_record 1 (remove_record 1 two_records_x) = [''x'']"
proof -
  have "map col_id (Record_rows (remove_record 1 two_records_x)) = [Some 2]"
    by (simp add: remove_record_def connection_foreign_keys_def delete_from_Record_def
        example_defs tag_defs)
  moreover have "Tag_rows (remove_record 1 two_records_x) = [(1, ''x'')]"
    by (simp add: remove_record_def connection_foreign_keys_def delete_from_Record_def
        two_records_x_tables)
  ultimately show ?thesis
    by (simp add: remove_record_TagSet two_records_x_tables get_tags_for_record_def str_lower_x)
qed

subsection \<open>The tags column of the read queries\<close>

lemmas read_defs =
  get_all_records_def get_record_by_id_def left_join_def joined_rows_def group_by_id_def
  group_concat_def
  map_row_to_record_def example_by_value_def

text \<open>The entity that \<^verbatim>\<open>map_row_to_record\<close> builds does not depend on \<^verbatim>\<open>row[19]\<close>.\<close>

lemma map_row_to_record_ignores_tags:
  "map_row_to_record by_value (r, tags) = map_row_to_record by_value (r, tags')"
  by (simp add: map_row_to_record_def)

text \<open>
  C2. In the example store the query of \<^verbatim>\<open>get_all_records\<close> selects record 1 with the tags
  column \<^verbatim>\<open>'x'\<close> and record 2, which has no tag, with NULL: both records are returned.
  The entities carry the lists split from column \<^verbatim>\<open>groups\<close> and nothing of the tags
  column: \<^verbatim>\<open>get_all_records\<close> and \<^verbatim>\<open>get_record_by_id\<close> return the same entities as on the
  store where record 1 has no tag.
\<close>

theorem tags_column_not_mapped:
  "map snd (group_by_id (left_join two_records_x)) = [Some ''x'', None]
   \<and> map id' (get_all_records example_by_value two_records_x) = [Some 1, Some 2]
   \<and> map groups (get_all_records example_by_value two_records_x) = [[], [''style'', ''lora'']]
   \<and> get_all_records example_by_value two_records_x
       = get_all_records example_by_value two_records
   \<and> get_record_by_id example_by_value 1 two_records_x
       = get_record_by_id example_by_value 1 two_records
   \<and> get_tags_for_record 1 two_records_x = [''x'']
   \<and> get_tags_for_record 1 two_records = []"
  by (simp add: read_defs example_defs tag_defs)

subsection \<open>The composed query with a name\<close>

lemma placeholders_append: "placeholders (cs @ ds) = placeholders cs + placeholders ds"
  by (induction cs rule: placeholders.induct) simp_all

lemma placeholders_tags: "placeholders (map (\<lambda>g. Tag_like_bare) gs) = length gs"
  by (induction gs) simp_all

lemma tag_condition_present: "Tag_like_bare \<in> (\<lambda>g. Tag_like_bare) ` set gs \<longleftrightarrow> gs \<noteq> []"
  by (cases gs) auto

text \<open>
  C4. With a non-empty \<^verbatim>\<open>name_query\<close> the call never returns records. The name condition
  is the literal \<^verbatim>\<open>'%?%'\<close> and has no placeholder, while \<^verbatim>\<open>params\<close> starts with the pattern
  for the name: the statement has one parameter more than it has placeholders and
  \<^verbatim>\<open>execute\<close> raises \<^verbatim>\<open>ProgrammingError\<close>. When groups are given as well the statement does
  not parse (\<^verbatim>\<open>t.name LIKE %?%\<close>) and \<^verbatim>\<open>execute\<close> raises \<^verbatim>\<open>OperationalError\<close>.
\<close>

theorem query_with_name_raises:
  assumes "q \<noteq> []"
  shows "query_records by_value path_exists (Some q) tag_groups model_types
           show_downloaded show_not_downloaded db
         = Inl (if tag_groups = None \<or> tag_groups = Some [] then ProgrammingError
                else OperationalError)"
  using assms
  by (cases tag_groups; cases model_types)
     (auto simp: query_records_def execute_select_def query_conditions_def query_params_def
        placeholders_append placeholders_tags tag_condition_present)

text \<open>The query of the specification's example, \<^verbatim>\<open>name_query='drag'\<close> alone, with a model
  type and with a group, on the example stores.\<close>

theorem query_with_name_raises_witness:
  "''drag'' \<noteq> []
   \<and> query_records example_by_value example_exists (Some ''drag'') None None True True two_records
       = Inl ProgrammingError
   \<and> query_records example_by_value example_exists (Some ''drag'') None (Some [''checkpoint''])
         True True two_records
       = Inl ProgrammingError
   \<and> query_records example_by_value example_exists (Some ''drag'') (Some [''x'']) None
         True True two_records_x
       = Inl OperationalError"
proof -
  have h: "''drag'' \<noteq> []"
    by simp
  have "query_records example_by_value example_exists (Some ''drag'') None None True True
          two_records = Inl ProgrammingError"
    using query_with_name_raises [OF h, of example_by_value example_exists None None]
    by simp
  moreover have "query_records example_by_value example_exists (Some ''drag'') None
          (Some [''checkpoint'']) True True two_records = Inl ProgrammingError"
    using query_with_name_raises [OF h, of example_by_value example_exists None]
    by simp
  moreover have "query_records example_by_value example_exists (Some ''drag'') (Some [''x''])
          None True True two_records_x = Inl OperationalError"
    using query_with_name_raises [OF h, of example_by_value example_exists "Some [''x'']"]
    by simp
  ultimately show ?thesis
    using h by blast
qed

subsection \<open>The filter on the download state\<close>







subsection \<open>Updating a record\<close>

text \<open>
  C10. \<^verbatim>\<open>update_record\<close> leaves the column \<^verbatim>\<open>created_at\<close> of every row as it is, whatever
  the \<open>created_at\<close> of the record passed in, and it leaves the ids; this holds when it
  returns and when it raises. When it raises, the database is as it was. When it returns,
  the other seventeen columns of the rows whose id is that of the record have the values of
  the record, the weight as the column stores it.
\<close>

theorem update_record_keeps_created_at:
  "map col_created_at (Record_rows (state_of (update_record mt_value record db)))
     = map col_created_at (Record_rows db)
   \<and> map col_id (Record_rows (state_of (update_record mt_value record db)))
       = map col_id (Record_rows db)
   \<and> (case update_record mt_value record db of
        Raise e db' \<Rightarrow> db' = db
      | Return u db' \<Rightarrow>
          (\<forall>r \<in> set (Record_rows db').
             id' record \<noteq> None \<and> col_id r = id' record \<longrightarrow>
               col_name r = name record
             \<and> col_model_type r = Some (mt_value (model_type record))
             \<and> col_download_url r = download_url record
             \<and> col_url r = url record
             \<and> col_download_path r = download_path record
             \<and> col_download_filename r = download_filename record
             \<and> col_preview_url r = preview_url record
             \<and> col_description r = description record
             \<and> col_positive_prompts r = positive_prompts record
             \<and> col_negative_prompts r = negative_prompts record
             \<and> col_sha256_hash r = sha256_hash record
             \<and> col_md5_hash r = md5_hash record
             \<and> col_groups r = Some (join CHR '','' (groups record))
             \<and> col_subdir r = subdir record
             \<and> col_location r = location record
             \<and> Inr (col_weight r) = bind_weight (weight record)
             \<and> col_backup_url r = backup_url record))"
proof -
  have "map col_created_at (Record_rows (state_of (update_record mt_value record db)))
     = map col_created_at (Record_rows db)"
    by (simp add: update_record_def state_of_def comp_def split: sum.splits cong: map_cong)
  moreover have "map col_id (Record_rows (state_of (update_record mt_value record db)))
      = map col_id (Record_rows db)"
    by (simp add: update_record_def state_of_def comp_def split: sum.splits cong: map_cong)
  moreover have "case update_record mt_value record db of
        Raise e db' \<Rightarrow> db' = db
      | Return u db' \<Rightarrow>
          (\<forall>r \<in> set (Record_rows db').
             id' record \<noteq> None \<and> col_id r = id' record \<longrightarrow>
               col_name r = name record
             \<and> col_model_type r = Some (mt_value (model_type record))
             \<and> col_download_url r = download_url record
             \<and> col_url r = url record
             \<and> col_download_path r = download_path record
             \<and> col_download_filename r = download_filename record
             \<and> col_preview_url r = preview_url record
             \<and> col_description r = description record
             \<and> col_positive_prompts r = positive_prompts record
             \<and> col_negative_prompts r = negative_prompts record
             \<and> col_sha256_hash r = sha256_hash record
             \<and> col_md5_hash r = md5_hash record
             \<and> col_groups r = Some (join CHR '','' (groups record))
             \<and> col_subdir r = subdir record
             \<and> col_location r = location record
             \<and> Inr (col_weight r) = bind_weight (weight record)
             \<and> col_backup_url r = backup_url record)"
    by (auto simp: update_record_def split: sum.splits)
  ultimately show ?thesis by blast
qed

text \<open>Updating record 1 of the example store with \<open>created_at = 99\<close>: the name changes, the
  stored \<open>created_at\<close> stays 0.\<close>

theorem update_record_keeps_created_at_witness:
  "created_at renamed_record = Some 99
   \<and> map col_created_at (Record_rows two_records) = [Some 0, Some 0]
   \<and> update_record example_value renamed_record two_records
       = Return () (state_of (update_record example_value renamed_record two_records))
   \<and> map col_created_at
        (Record_rows (state_of (update_record example_value renamed_record two_records)))
       = [Some 0, Some 0]
   \<and> map col_name
        (Record_rows (state_of (update_record example_value renamed_record two_records)))
       = [Some ''Renamed'', Some ''Dragon LoRA'']"
proof -
  have before: "map col_created_at (Record_rows two_records) = [Some 0, Some 0]"
    by (simp add: example_defs next_rowid_def)
  have returns: "update_record example_value renamed_record two_records
       = Return () (state_of (update_record example_value renamed_record two_records))"
    by (simp add: update_record_def renamed_record_def example_record_def bind_weight_def
        fits_sqlite_integer_def state_of_def)
  have names: "map col_name
        (Record_rows (state_of (update_record example_value renamed_record two_records)))
          = [Some ''Renamed'', Some ''Dragon LoRA'']"
    by (simp add: update_record_def renamed_record_def example_defs next_rowid_def)
  have c: "created_at renamed_record = Some 99"
    by (simp add: renamed_record_def)
  have "map col_created_at
        (Record_rows (state_of (update_record example_value renamed_record two_records)))
       = [Some 0, Some 0]"
    using before update_record_keeps_created_at [of example_value renamed_record two_records]
    by simp
  with before returns names c show ?thesis
    by (intro conjI)
qed

text \<open>\<^verbatim>\<open>update_record\<close> returns when the weight and the id of the record can be bound, and
  only then.\<close>

lemma update_record_returns:
  "(\<exists>db'. update_record mt_value record db = Return () db')
     \<longleftrightarrow> (\<exists>stored. bind_weight (weight record) = Inr stored) \<and> fits_sqlite_integer (id' record)"
  by (auto simp: update_record_def split: sum.splits)

subsection \<open>Adding a record and reading it back\<close>

lemma split_no_sep: "sep \<notin> set x \<Longrightarrow> split sep x = [x]"
  by (induction x) (auto split: list.splits)

lemma split_append_sep: "sep \<notin> set x \<Longrightarrow> split sep (x @ sep # rest) = x # split sep rest"
  by (induction x) (auto split: list.splits)

lemma split_join:
  "\<forall>g \<in> set gs. sep \<notin> set g \<Longrightarrow> gs \<noteq> [] \<Longrightarrow> split sep (join sep gs) = gs"
proof (induction sep gs rule: join.induct)
  case (1 sep)
  then show ?case by simp
next
  case (2 sep x)
  then show ?case by (simp add: split_no_sep)
next
  case (3 sep x y ys)
  then show ?case by (simp add: split_append_sep)
qed

lemma join_empty: "join sep gs = [] \<Longrightarrow> gs = [] \<or> gs = [[]]"
proof (cases gs)
  case Nil
  then show ?thesis by simp
next
  case (Cons x xs)
  assume "join sep gs = []"
  with Cons show ?thesis by (cases xs) simp_all
qed

text \<open>What \<^verbatim>\<open>map_row_to_record\<close> makes of the joined groups.\<close>

lemma groups_round_trip:
  assumes "\<forall>g \<in> set gs. CHR '','' \<notin> set g" and "gs \<noteq> [[]]"
  shows "(if join CHR '','' gs \<noteq> [] then split CHR '','' (join CHR '','' gs) else []) = gs"
proof (cases "join CHR '','' gs = []")
  case True
  with assms(2) join_empty [of "CHR '',''" gs] show ?thesis by simp
next
  case False
  then have "gs \<noteq> []" by auto
  with assms(1) False show ?thesis by (simp add: split_join)
qed

text \<open>The id that the table assigns is the id of no row of the table.\<close>

lemma next_rowid_fresh: "k \<in> set ids \<Longrightarrow> k < next_rowid ids"
proof -
  assume "k \<in> set ids"
  then have "k \<le> Max (set ids)" by simp
  moreover have "ids \<noteq> []" using \<open>k \<in> set ids\<close> by auto
  ultimately show ?thesis by (simp add: next_rowid_def)
qed

lemma some_ids: "k \<in> set [i. Some i \<leftarrow> xs] \<longleftrightarrow> Some k \<in> set xs"
  by (induction xs) (auto split: option.splits)

lemma fresh_rowid:
  "\<forall>r \<in> set (Record_rows db).
     col_id r \<noteq> Some (next_rowid [i. Some i \<leftarrow> map col_id (Record_rows db)])"
proof
  fix r assume r: "r \<in> set (Record_rows db)"
  let ?ids = "[i. Some i \<leftarrow> map col_id (Record_rows db)]"
  show "col_id r \<noteq> Some (next_rowid ?ids)"
  proof
    assume eq: "col_id r = Some (next_rowid ?ids)"
    have "Some (next_rowid ?ids) \<in> set (map col_id (Record_rows db))"
      using r eq by (metis image_eqI list.set_map)
    then have "next_rowid ?ids \<in> set ?ids"
      by (simp only: some_ids)
    from next_rowid_fresh [OF this] show False by simp
  qed
qed

text \<open>The left join row by row: the joined rows of a Record row carry that row, and there
  is at least one.\<close>

lemma joined_rows_fst: "j \<in> set (joined_rows db r) \<Longrightarrow> fst j = r"
  by (auto simp: joined_rows_def Let_def split: if_splits)

lemma joined_rows_nonempty: "joined_rows db r \<noteq> []"
proof -
  define ts where "ts = [t. (rid, t) \<leftarrow> TagSet_rows db, Some rid = col_id r]"
  define h where "h = (\<lambda>t. let names = [n. (i, n) \<leftarrow> Tag_rows db, i = t]
                in if names = [] then [(r, None :: string option)]
                   else map (\<lambda>n. (r, Some n)) names)"
  have h_ne: "h t \<noteq> []" for t
    by (simp add: h_def Let_def)
  have eq: "joined_rows db r = (if ts = [] then [(r, None)] else concat (map h ts))"
    by (simp only: joined_rows_def ts_def h_def Let_def)
  show ?thesis
  proof (cases ts)
    case Nil
    with eq show ?thesis by simp
  next
    case (Cons t ts')
    with eq h_ne [of t] show ?thesis by simp
  qed
qed

lemma filter_joined_rows:
  "[j \<leftarrow> joined_rows db r. P (fst j)] = (if P r then joined_rows db r else [])"
  using joined_rows_fst [of _ db r] by (auto simp: filter_empty_conv intro: filter_True)

lemma filter_left_join:
  "[j \<leftarrow> concat (map (joined_rows db) rs). P (fst j)]
     = concat (map (joined_rows db) [r \<leftarrow> rs. P r])"
  by (induction rs) (simp_all add: filter_joined_rows)

text \<open>\<^verbatim>\<open>get_record_by_id\<close> for the id of a row that has just been appended.\<close>

lemma get_by_fresh_id:
  assumes fresh: "\<forall>r \<in> set (Record_rows db). col_id r \<noteq> Some i"
      and new_id: "col_id new = Some i"
  shows "get_record_by_id by_value i (db\<lparr>Record_rows := Record_rows db @ [new]\<rparr>)
           = Some (map_row_to_record by_value (new, None))"
proof -
  let ?db' = "db\<lparr>Record_rows := Record_rows db @ [new]\<rparr>"
  let ?js = "[j \<leftarrow> left_join ?db'. col_id (fst j) = Some i]"
  have "[r \<leftarrow> Record_rows db. col_id r = Some i] = []"
    using fresh by (simp add: filter_empty_conv)
  then have js: "?js = joined_rows ?db' new"
    using new_id
    by (simp add: left_join_def filter_left_join [where P = "\<lambda>r. col_id r = Some i"]
        filter_joined_rows [where P = "\<lambda>r. col_id r = Some i"])
  then have ne: "?js \<noteq> []"
    by (simp add: joined_rows_nonempty)
  then have "hd ?js \<in> set (joined_rows ?db' new)"
    using js by (metis hd_in_set)
  then have "fst (hd ?js) = new"
    by (rule joined_rows_fst)
  with ne show ?thesis
    by (simp add: get_record_by_id_def Let_def map_row_to_record_def)
qed

text \<open>The weight that the column stores for a weight it stores exactly.\<close>

lemma bind_exact_weight:
  assumes "weight_in = None \<or> (\<exists>x. weight_in = Some (PyFloat x))
           \<or> (\<exists>n. weight_in = Some (PyInt n) \<and> \<bar>n\<bar> \<le> 2 ^ 53)"
  shows "\<exists>stored. bind_weight weight_in = Inr stored
           \<and> map_option PyFloat stored
               = (case weight_in of
                    Some (PyInt n) \<Rightarrow> Some (PyFloat (real_of_int n))
                  | w \<Rightarrow> w)"
proof -
  consider "weight_in = None" | x where "weight_in = Some (PyFloat x)"
    | n where "weight_in = Some (PyInt n)" "\<bar>n\<bar> \<le> 2 ^ 53"
    using assms by blast
  then show ?thesis
  proof cases
    case 1
    then show ?thesis by (simp add: bind_weight_def)
  next
    case 2
    then show ?thesis by (simp add: bind_weight_def)
  next
    case 3
    then have "fits_sqlite_integer (Some n)"
      by (simp add: fits_sqlite_integer_def) arith
    with 3 show ?thesis by (simp add: bind_weight_def double_of_int_def)
  qed
qed

lemma py_eq_stored:
  assumes "weight_in = None \<or> (\<exists>x. weight_in = Some (PyFloat x))
           \<or> (\<exists>n. weight_in = Some (PyInt n) \<and> \<bar>n\<bar> \<le> 2 ^ 53)"
  shows "rel_option py_eq
           (case weight_in of
              Some (PyInt n) \<Rightarrow> Some (PyFloat (real_of_int n))
            | w \<Rightarrow> w)
           weight_in"
  using assms by auto

text \<open>
  C3, as the claim states it, fails on a record whose groups are the list of the one empty
  name: \<^verbatim>\<open>add_record\<close> stores the groups \<^verbatim>\<open>['']\<close> as the empty text, and
  \<^verbatim>\<open>get_record_by_id\<close> returns the groups \<^verbatim>\<open>[]\<close>. The other fields are those passed in.
\<close>

theorem add_then_get_by_id_counterexample:
  "add_record example_value unnamed_group_record new_database
     = Return 1 (state_of (add_record example_value unnamed_group_record new_database))
   \<and> groups unnamed_group_record = [[]]
   \<and> get_record_by_id example_by_value 1
        (state_of (add_record example_value unnamed_group_record new_database))
       = Some (unnamed_group_record\<lparr>id' := Some 1, groups := []\<rparr>)
   \<and> get_record_by_id example_by_value 1
        (state_of (add_record example_value unnamed_group_record new_database))
       \<noteq> Some (unnamed_group_record\<lparr>id' := Some 1\<rparr>)"
proof -
  have add: "add_record example_value unnamed_group_record new_database
     = Return 1 (state_of (add_record example_value unnamed_group_record new_database))"
    by (simp add: unnamed_group_record_def example_defs next_rowid_def)
  have got: "get_record_by_id example_by_value 1
        (state_of (add_record example_value unnamed_group_record new_database))
       = Some (unnamed_group_record\<lparr>id' := Some 1, groups := []\<rparr>)"
    by (simp add: unnamed_group_record_def example_defs next_rowid_def read_defs)
  have g: "groups unnamed_group_record = [[]]"
    by (simp add: unnamed_group_record_def)
  have "get_record_by_id example_by_value 1
        (state_of (add_record example_value unnamed_group_record new_database))
       \<noteq> Some (unnamed_group_record\<lparr>id' := Some 1\<rparr>)"
  proof
    assume "get_record_by_id example_by_value 1
        (state_of (add_record example_value unnamed_group_record new_database))
       = Some (unnamed_group_record\<lparr>id' := Some 1\<rparr>)"
    with got have "unnamed_group_record\<lparr>id' := Some 1, groups := []\<rparr>
                     = unnamed_group_record\<lparr>id' := Some 1\<rparr>"
      by simp
    then have "groups (unnamed_group_record\<lparr>id' := Some 1, groups := []\<rparr>)
                 = groups (unnamed_group_record\<lparr>id' := Some 1\<rparr>)"
      by (rule arg_cong)
    with g show False by simp
  qed
  with add got g show ?thesis by (intro conjI)
qed

text \<open>A \<open>created_at\<close> or an int weight of \<open>2 ^ 63\<close> makes \<^verbatim>\<open>add_record\<close> raise, in every
  store.\<close>

lemma created_at_out_of_range_raises:
  "add_record example_value late_record db = Raise OverflowError db"
  by (simp add: add_record_def late_record_def example_record_def fits_sqlite_integer_def)

lemma weight_out_of_range_raises:
  "add_record example_value heavier_record db = Raise OverflowError db"
  by (simp add: add_record_def heavier_record_def example_record_def fits_sqlite_integer_def
      bind_weight_def)

text \<open>The int weight \<open>2 ^ 53 + 1 = 9007199254740993\<close> is read back as the float
  \<open>2 ^ 53 = 9007199254740992\<close>, which is not equal to it, and the weight \<^verbatim>\<open>nan\<close> as
  \<^verbatim>\<open>None\<close>.\<close>

lemma double_of_int_rounds: "double_of_int 9007199254740993 = 9007199254740992"
  by code_simp

lemma int_weight_rounded:
  "add_record example_value heavy_record new_database
     = Return 1 (state_of (add_record example_value heavy_record new_database))
   \<and> map_option weight
        (get_record_by_id example_by_value 1
           (state_of (add_record example_value heavy_record new_database)))
       = Some (Some (PyFloat (2 ^ 53)))
   \<and> weight heavy_record = Some (PyInt (2 ^ 53 + 1))
   \<and> \<not> py_eq (PyFloat (2 ^ 53)) (PyInt (2 ^ 53 + 1))"
proof -
  have b: "bind_weight (Some (PyInt 9007199254740993)) = Inr (Some 9007199254740992)"
    by (simp add: bind_weight_def fits_sqlite_integer_def double_of_int_rounds)
  have "add_record example_value heavy_record new_database
     = Return 1 (state_of (add_record example_value heavy_record new_database))"
    by (simp add: add_record_def heavy_record_def example_record_def b state_of_def
        fits_sqlite_integer_def new_database_def next_rowid_def)
  moreover have "map_option weight
        (get_record_by_id example_by_value 1
           (state_of (add_record example_value heavy_record new_database)))
       = Some (Some (PyFloat (2 ^ 53)))"
    by (simp add: add_record_def heavy_record_def example_record_def b state_of_def
        fits_sqlite_integer_def new_database_def next_rowid_def inserted_row_def read_defs)
  moreover have "weight heavy_record = Some (PyInt (2 ^ 53 + 1))"
    by (simp add: heavy_record_def)
  moreover have "\<not> py_eq (PyFloat (2 ^ 53)) (PyInt (2 ^ 53 + 1))"
    by simp
  ultimately show ?thesis by (intro conjI)
qed

lemma nan_weight_read_as_None:
  "add_record example_value nan_record new_database
     = Return 1 (state_of (add_record example_value nan_record new_database))
   \<and> map_option weight
        (get_record_by_id example_by_value 1
           (state_of (add_record example_value nan_record new_database)))
       = Some None
   \<and> weight nan_record = Some PyNaN"
proof -
  have "add_record example_value nan_record new_database
     = Return 1 (state_of (add_record example_value nan_record new_database))"
    by (simp add: nan_record_def example_defs next_rowid_def)
  moreover have "map_option weight
        (get_record_by_id example_by_value 1
           (state_of (add_record example_value nan_record new_database)))
       = Some None"
    by (simp add: nan_record_def example_defs next_rowid_def read_defs)
  moreover have "weight nan_record = Some PyNaN"
    by (simp add: nan_record_def)
  ultimately show ?thesis by (intro conjI)
qed

text \<open>
  C3, amended. Let the model type of the record be one that \<^verbatim>\<open>ModelType.by_value\<close> finds
  from its value, \<open>created_at\<close> fit a signed 64-bit integer, no group name contain a comma,
  the groups not be the list of the one empty name, and the weight be \<^verbatim>\<open>None\<close>, a finite
  float or an int of magnitude at most \<open>2 ^ 53\<close>; the texts of the record are strs that
  UTF-8 encodes. Then \<^verbatim>\<open>add_record\<close> returns an id, and \<^verbatim>\<open>get_record_by_id\<close> of that id
  returns the record with that id and every other field as it was passed in, where an int
  weight is returned as the float of the same value: the weight returned is equal to the
  weight passed in as Python compares numbers.
\<close>

theorem add_then_get_by_id:
  assumes "by_value (Some (mt_value (model_type record))) = model_type record"
      and "fits_sqlite_integer (created_at record)"
      and "\<forall>g \<in> set (groups record). CHR '','' \<notin> set g"
      and "groups record \<noteq> [[]]"
      and "weight record = None \<or> (\<exists>x. weight record = Some (PyFloat x))
           \<or> (\<exists>n. weight record = Some (PyInt n) \<and> \<bar>n\<bar> \<le> 2 ^ 53)"
  shows "\<exists>i db' r. add_record mt_value record db = Return i db'
           \<and> get_record_by_id by_value i db' = Some r
           \<and> r = record\<lparr>id' := Some i,
                        weight := (case weight record of
                                     Some (PyInt n) \<Rightarrow> Some (PyFloat (real_of_int n))
                                   | w \<Rightarrow> w)\<rparr>
           \<and> rel_option py_eq (weight r) (weight record)"
proof -
  define i where "i = next_rowid [i. Some i \<leftarrow> map col_id (Record_rows db)]"
  from bind_exact_weight [OF assms(5)] obtain stored where
    bound: "bind_weight (weight record) = Inr stored"
    and stored: "map_option PyFloat stored
                   = (case weight record of
                        Some (PyInt n) \<Rightarrow> Some (PyFloat (real_of_int n))
                      | w \<Rightarrow> w)"
    by (elim exE conjE)
  define new where "new = inserted_row mt_value record stored i"
  define r where "r = map_row_to_record by_value (new, None)"
  have add: "add_record mt_value record db
               = Return i (db\<lparr>Record_rows := Record_rows db @ [new]\<rparr>)"
    using assms(2) by (simp add: add_record_def Let_def i_def new_def bound)
  have "col_id new = Some i"
    by (simp add: inserted_row_def new_def)
  moreover have "\<forall>r \<in> set (Record_rows db). col_id r \<noteq> Some i"
    unfolding i_def by (rule fresh_rowid)
  ultimately have get:
    "get_record_by_id by_value i (db\<lparr>Record_rows := Record_rows db @ [new]\<rparr>) = Some r"
    by (simp add: get_by_fresh_id r_def)
  have eq: "r = record\<lparr>id' := Some i,
                        weight := (case weight record of
                                     Some (PyInt n) \<Rightarrow> Some (PyFloat (real_of_int n))
                                   | w \<Rightarrow> w)\<rparr>"
    unfolding r_def
    by (rule Record.equality)
       (simp_all add: map_row_to_record_def inserted_row_def new_def assms(1) stored
          groups_round_trip [OF assms(3,4)])
  then have "weight r = (case weight record of
                           Some (PyInt n) \<Rightarrow> Some (PyFloat (real_of_int n))
                         | w \<Rightarrow> w)"
    by simp
  with py_eq_stored [OF assms(5)] have "rel_option py_eq (weight r) (weight record)"
    by simp
  with add get eq show ?thesis
    by (intro exI conjI)
qed

text \<open>A record with two groups and a float weight, added to the example store: it is
  read back as it was passed in, with its id.\<close>

theorem add_then_get_by_id_witness:
  "example_by_value (Some (example_value (model_type lora_record))) = model_type lora_record
   \<and> fits_sqlite_integer (created_at lora_record)
   \<and> \<not> (\<exists>g \<in> set (groups lora_record). CHR '','' \<in> set g)
   \<and> groups lora_record = [''style'', ''lora'']
   \<and> groups lora_record \<noteq> [[]]
   \<and> weight lora_record = Some (PyFloat 1)
   \<and> (\<exists>i db'. add_record example_value lora_record two_records_x = Return i db'
          \<and> get_record_by_id example_by_value i db' = Some (lora_record\<lparr>id' := Some i\<rparr>))"
proof -
  have h1: "example_by_value (Some (example_value (model_type lora_record)))
              = model_type lora_record"
    by (simp add: example_by_value_def example_value_def)
  have h2: "fits_sqlite_integer (created_at lora_record)"
    by (simp add: lora_record_def example_record_def fits_sqlite_integer_def)
  have g: "groups lora_record = [''style'', ''lora'']"
    by (simp add: lora_record_def)
  have h3: "\<forall>g \<in> set (groups lora_record). CHR '','' \<notin> set g"
    by (simp add: g)
  have h4: "groups lora_record \<noteq> [[]]"
    by (simp add: g)
  have w: "weight lora_record = Some (PyFloat 1)"
    by (simp add: lora_record_def example_record_def)
  then have h5: "weight lora_record = None \<or> (\<exists>x. weight lora_record = Some (PyFloat x))
           \<or> (\<exists>n. weight lora_record = Some (PyInt n) \<and> \<bar>n\<bar> \<le> 2 ^ 53)"
    by simp
  from add_then_get_by_id
         [of example_by_value example_value lora_record two_records_x, OF h1 h2 h3 h4 h5]
  obtain i db' r where
    "add_record example_value lora_record two_records_x = Return i db'"
    "get_record_by_id example_by_value i db' = Some r"
    "r = lora_record\<lparr>id' := Some i,
                        weight := (case weight lora_record of
                                     Some (PyInt n) \<Rightarrow> Some (PyFloat (real_of_int n))
                                   | w \<Rightarrow> w)\<rparr>"
    by (elim exE conjE)
  then have "\<exists>i db'. add_record example_value lora_record two_records_x = Return i db'
          \<and> get_record_by_id example_by_value i db' = Some (lora_record\<lparr>id' := Some i\<rparr>)"
    using w by auto
  with h1 h2 h3 h4 g w show ?thesis
    by blast
qed

subsection \<open>The migration chain\<close>

text \<open>The loop over a list of versions that is two lists one after the other.\<close>

lemma loop_append:
  "migration_loop m (xs @ ys) st =
     (case migration_loop m xs st of
        Raise e s \<Rightarrow> Raise e s
      | Return u s \<Rightarrow> migration_loop m ys s)"
  by (induction xs arbitrary: st) (simp_all add: Let_def split: option.splits result.splits)

lemma db_file_backup [simp]: "db_file (backup_database ver st) = db_file st"
  by (simp add: backup_database_def Let_def)

lemma backups_backup:
  "backups (backup_database ver st) =
     (\<lambda>n. if n = ver then Some (db_file st)
          else if 1 < ver \<and> n = ver - 1 then None else backups st n)"
  by (auto simp: backup_database_def Let_def fun_eq_iff)

lemmas statement_defs =
  add_column_def rename_column_def delete_from_Version_def insert_into_Version_def

lemmas migration_defs =
  migrate_1_to_2_def migrate_2_to_3_def migrate_3_to_4_def migrate_4_to_5_def
  migrate_5_to_6_def migrate_6_to_7_def migrate_7_to_8_def

lemmas migrator_defs =
  run_migration_def DB_VERSION_def migration_map_def map_without_6_def
  storage_v1_def legacy_columns_def backup_database_def migration_defs statement_defs

text \<open>
  C8. Let no migration be registered for a version k of the chain from the stored version
  v to \<^verbatim>\<open>_DB_VERSION - 1\<close>, for any dictionary of migrations. Then the loop of
  \<^verbatim>\<open>_run_migration\<close> raises. When the migrations of the versions before k returned, it is
  the exception for the missing migration of k that is raised, and it leaves the database
  file as those migrations committed it (after the backup for k was taken).
\<close>

theorem missing_migration_raises:
  assumes "v \<le> k" and "k < DB_VERSION" and "migrations k = None"
  shows "(\<exists>e st'. migration_loop migrations [v..DB_VERSION - 1] st = Raise e st')
       \<and> (\<forall>st_k. migration_loop migrations [v..k - 1] st = Return () st_k \<longrightarrow>
             migration_loop migrations [v..DB_VERSION - 1] st
               = Raise (Missing_migration k) (backup_database k st_k)
             \<and> db_file (backup_database k st_k) = db_file st_k)"
proof -
  have "[v..DB_VERSION - 1] = [v..k - 1] @ [k..DB_VERSION - 1]"
    using assms(1,2) by (simp add: upto_split1)
  moreover have "[k..DB_VERSION - 1] = k # [k + 1..DB_VERSION - 1]"
    using assms(2) by (simp add: upto_rec1)
  ultimately have split: "[v..DB_VERSION - 1] = [v..k - 1] @ k # [k + 1..DB_VERSION - 1]"
    by simp
  have at_k: "migration_loop migrations (k # rest) s = Raise (Missing_migration k) (backup_database k s)"
    for rest s
    using assms(3) by (simp add: Let_def)
  show ?thesis
    by (cases "migration_loop migrations [v..k - 1] st")
       (simp_all add: split loop_append at_k del: migration_loop.simps)
qed

lemma loop_without_6:
  "migration_loop map_without_6 [1..6 - 1] storage_v1 = Return () storage_v6"
  by (simp add: storage_v6_def state_of_def migrator_defs upto_rec1 [of 1])

lemma storage_v6_files:
  "Version_rows (db_file storage_v6) = [6]"
  "CHR ''w'' # ''eight'' \<in> set (Record_columns (db_file storage_v6))"
  by (simp_all add: storage_v6_def state_of_def migrator_defs upto_rec1 [of 1])

text \<open>Without the migration of version 6, a database of version 1 is migrated to version 6
  and stays there. With the dictionary of the source, the chain from a stored version 0
  raises at once.\<close>

theorem missing_migration_raises_witness:
  "(1::int) \<le> 6 \<and> (6::int) < DB_VERSION \<and> map_without_6 6 = None
   \<and> migration_loop map_without_6 [1..6 - 1] storage_v1 = Return () storage_v6
   \<and> migration_loop map_without_6 [1..DB_VERSION - 1] storage_v1
       = Raise (Missing_migration 6) (backup_database 6 storage_v6)
   \<and> db_file (backup_database 6 storage_v6) = db_file storage_v6
   \<and> Version_rows (db_file storage_v6) = [6]
   \<and> migration_map 0 = None
   \<and> run_migration 0 storage_v1 = Raise (Missing_migration 0) (backup_database 0 storage_v1)"
proof -
  have h1: "(1::int) \<le> 6" by simp
  have h2: "(6::int) < DB_VERSION" by (simp add: DB_VERSION_def)
  have h3: "map_without_6 6 = None" by (simp add: map_without_6_def)
  have g1: "(0::int) \<le> 0" by simp
  have g2: "(0::int) < DB_VERSION" by (simp add: DB_VERSION_def)
  have g3: "migration_map 0 = None" by (simp add: migration_map_def)
  have "migration_loop map_without_6 [1..DB_VERSION - 1] storage_v1
          = Raise (Missing_migration 6) (backup_database 6 storage_v6)
        \<and> db_file (backup_database 6 storage_v6) = db_file storage_v6"
    using missing_migration_raises [of 1 6 map_without_6 storage_v1, OF h1 h2 h3] loop_without_6
    by blast
  moreover have "run_migration 0 storage_v1
          = Raise (Missing_migration 0) (backup_database 0 storage_v1)"
    using missing_migration_raises [of 0 0 migration_map storage_v1, OF g1 g2 g3]
    by (simp add: run_migration_def)
  ultimately show ?thesis
    using h1 h2 h3 g3 loop_without_6 storage_v6_files by simp
qed

subsection \<open>The backups of a migration\<close>

text \<open>The backup files after the loop over the versions a to b has returned.\<close>

lemma chain_backups:
  assumes "migration_loop m [a..b] st = Return () st'" and "1 \<le> a" and "a \<le> b"
  shows "\<exists>d migration. m b = Some migration \<and> migration d = Return () (db_file st')
           \<and> backups st' = (\<lambda>n. if n = b then Some d
                                else if a - 1 \<le> n \<and> 1 \<le> n \<and> n < b then None
                                else backups st n)"
  using assms
proof (induction "nat (b - a)" arbitrary: a st)
  case 0
  then have ab: "b = a" by simp
  then have "[a..b] = [a]" by simp
  with "0.prems"(1) show ?case
    by (auto simp: Let_def ab backups_backup fun_eq_iff split: option.splits result.splits)
next
  case (Suc n)
  then have lt: "a < b" by simp
  then have list: "[a..b] = a # [a + 1..b]" by (simp add: upto_rec1)
  from Suc.prems(1) obtain migration db' where
    step: "m a = Some migration" "migration (db_file st) = Return () db'"
    and rest: "migration_loop m [a + 1..b] ((backup_database a st)\<lparr>db_file := db'\<rparr>) = Return () st'"
    by (auto simp: list Let_def split: option.splits result.splits)
  have "n = nat (b - (a + 1))" using Suc.hyps(2) by simp
  from Suc.hyps(1) [OF this rest] lt Suc.prems(2)
  obtain d mig where last: "m b = Some mig" "mig d = Return () (db_file st')"
    and bs: "backups st' = (\<lambda>n. if n = b then Some d
                                else if a + 1 - 1 \<le> n \<and> 1 \<le> n \<and> n < b then None
                                else backups ((backup_database a st)\<lparr>db_file := db'\<rparr>) n)"
    by auto
  have "backups st' = (\<lambda>n. if n = b then Some d
                                else if a - 1 \<le> n \<and> 1 \<le> n \<and> n < b then None
                                else backups st n)"
    using lt Suc.prems(2) by (auto simp: bs backups_backup fun_eq_iff)
  with last show ?case by blast
qed

lemma migrate_6_to_7_version: "migrate_6_to_7 d = Return u d' \<Longrightarrow> Version_rows d' = [7]"
  by (auto simp: migrate_6_to_7_def statement_defs split: if_splits)

lemma migrate_7_to_8_version: "migrate_7_to_8 d = Return u d' \<Longrightarrow> Version_rows d' = [8]"
  by (auto simp: migrate_7_to_8_def statement_defs split: if_splits)

lemma migration_map_6: "migration_map 6 = Some migrate_6_to_7"
  by (simp add: migration_map_def)

lemma migration_map_7: "migration_map 7 = Some migrate_7_to_8"
  by (simp add: migration_map_def)

text \<open>
  C7, amended. Let \<^verbatim>\<open>_run_migration(v)\<close> return for a stored version v from 1 to 6, that
  is after two or more steps, and let every backup file present before the run be of a
  version from v - 1 to 7 and not of version 0. Then exactly one backup file exists, that
  of version 7; it is the database file as it was before the last step, at schema version
  7; the backup of version v is not there; and the database file is at version 8.
\<close>

theorem single_backup_retained:
  assumes "1 \<le> v" and "v \<le> 6" and "run_migration v st = Return () st'"
      and "\<forall>n \<in> dom (backups st). 1 \<le> n \<and> v - 1 \<le> n \<and> n \<le> 7"
  shows "dom (backups st') = {7} \<and> backups st' v = None
       \<and> (\<exists>d. backups st' 7 = Some d \<and> Version_rows d = [7]
               \<and> migrate_7_to_8 d = Return () (db_file st'))
       \<and> Version_rows (db_file st') = [8]"
proof -
  have "[v..7] = [v..6] @ [7]"
    using assms(2) upto_rec2 [of v 7] by simp
  with assms(3) obtain st6 where
    first: "migration_loop migration_map [v..6] st = Return () st6"
    and last: "migration_loop migration_map [7] st6 = Return () st'"
    by (auto simp: run_migration_def DB_VERSION_def loop_append simp del: migration_loop.simps
        split: result.splits)
  from chain_backups [OF first assms(1,2)] obtain d6 where
    "migrate_6_to_7 d6 = Return () (db_file st6)"
    and bs6: "backups st6 = (\<lambda>n. if n = 6 then Some d6
                                else if v - 1 \<le> n \<and> 1 \<le> n \<and> n < 6 then None
                                else backups st n)"
    by (auto simp: migration_map_6)
  then have v7: "Version_rows (db_file st6) = [7]"
    by (simp add: migrate_6_to_7_version)
  from last obtain db' where
    m8: "migrate_7_to_8 (db_file st6) = Return () db'"
    and st': "st' = (backup_database 7 st6)\<lparr>db_file := db'\<rparr>"
    by (auto simp: Let_def migration_map_7 split: result.splits)
  have bs: "backups st' = (\<lambda>n. if n = 7 then Some (db_file st6)
                                else if v - 1 \<le> n \<and> 1 \<le> n \<and> n < 7 then None
                                else backups st n)"
    using assms(1,2) by (auto simp: st' backups_backup bs6 fun_eq_iff)
  have none: "backups st n = None" if "\<not> (1 \<le> n \<and> v - 1 \<le> n \<and> n \<le> 7)" for n
    using assms(4) that by (auto simp: dom_def)
  have at_7: "backups st' 7 = Some (db_file st6)"
    by (simp add: bs)
  have "backups st' n = None" if "n \<noteq> 7" for n
  proof (cases "v - 1 \<le> n \<and> 1 \<le> n \<and> n < 7")
    case True
    with that show ?thesis by (simp add: bs)
  next
    case False
    with that have "\<not> (1 \<le> n \<and> v - 1 \<le> n \<and> n \<le> 7)" by arith
    from none [OF this] False that show ?thesis by (simp add: bs)
  qed
  then have "backups st' n \<noteq> None \<longleftrightarrow> n = 7" for n
    using at_7 by (cases "n = 7") simp_all
  then have "dom (backups st') = {7}"
    by (simp add: dom_def)
  moreover have "backups st' v = None"
    using assms(1,2) by (simp add: bs)
  moreover note at_7
  moreover have "db_file st' = db'"
    by (simp add: st')
  ultimately show ?thesis
    using v7 m8 migrate_7_to_8_version [OF m8] by simp
qed

text \<open>A database of version 1 without backups is migrated to version 8 in seven steps.\<close>

lemma run_migration_v1:
  "run_migration 1 storage_v1 = Return () migrated_v1"
  by (simp add: migrated_v1_def state_of_def run_migration_def DB_VERSION_def migration_map_def
      storage_v1_def legacy_columns_def backup_database_def migration_defs statement_defs
      upto_rec1 [of 1])

lemma migrated_v1_files:
  "Record_columns (db_file migrated_v1) = current_columns"
  "Version_rows (db_file migrated_v1) = [8]"
  "map_option Version_rows (backups migrated_v1 7) = Some [7]"
  by (simp_all add: migrated_v1_def state_of_def migrator_defs current_columns_def upto_rec1 [of 1])

text \<open>The storage of version 6 with the backup of version 5 beside it, and the storage
  that \<^verbatim>\<open>_run_migration(6)\<close> makes of it.\<close>

lemma storage_v6_backups: "dom (backups storage_v6) = {5}"
  by (simp add: storage_v6_def state_of_def migrator_defs upto_rec1 [of 1])

lemma run_migration_v6: "run_migration 6 storage_v6 = Return () migrated_v6"
  by (simp add: migrated_v6_def storage_v6_def state_of_def migrator_defs upto_rec1 [of 1])

lemma migrated_v6_files:
  "Record_columns (db_file migrated_v6) = current_columns"
  "Version_rows (db_file migrated_v6) = [8]"
  "map_option Version_rows (backups migrated_v6 7) = Some [7]"
  by (simp_all add: migrated_v6_def storage_v6_def state_of_def migrator_defs current_columns_def
      upto_rec1 [of 1])

text \<open>The database of version 6 beside the backup of version 5: after the two steps the
  only backup is that of version 7, taken before the last step, and the backups of the
  versions 5 and 6 are gone.\<close>

theorem single_backup_retained_witness:
  "(1::int) \<le> 6 \<and> (6::int) \<le> 6
   \<and> Version_rows (db_file storage_v6) = [6]
   \<and> dom (backups storage_v6) = {5}
   \<and> run_migration 6 storage_v6 = Return () migrated_v6
   \<and> dom (backups migrated_v6) = {7}
   \<and> backups migrated_v6 6 = None
   \<and> map_option Version_rows (backups migrated_v6 7) = Some [7]
   \<and> Version_rows (db_file migrated_v6) = [8]
   \<and> Record_columns (db_file migrated_v6) = current_columns"
proof -
  have h: "\<forall>n \<in> dom (backups storage_v6). 1 \<le> n \<and> 6 - 1 \<le> n \<and> n \<le> 7"
    by (simp add: storage_v6_backups)
  have "dom (backups migrated_v6) = {7} \<and> backups migrated_v6 6 = None"
    using single_backup_retained [of 6 storage_v6 migrated_v6, OF _ _ run_migration_v6 h] by simp
  with storage_v6_backups run_migration_v6 migrated_v6_files storage_v6_files(1) show ?thesis
    by simp
qed

text \<open>
  C7, as the claim states it, fails when a backup file of a version below v - 1 is
  present before the run: \<^verbatim>\<open>_backup_database(n)\<close> removes the backup of version n - 1 and
  no other. \<^verbatim>\<open>_run_migration(6)\<close> on the database of version 6 beside a backup of version 3
  returns, with the database at version 8, and leaves two backup files, those of the
  versions 3 and 7.
\<close>

theorem single_backup_retained_counterexample:
  "Version_rows (db_file stale_v6) = [6]
   \<and> dom (backups stale_v6) = {3}
   \<and> run_migration 6 stale_v6 = Return () migrated_stale_v6
   \<and> dom (backups migrated_stale_v6) = {3, 7}
   \<and> Version_rows (db_file migrated_stale_v6) = [8]"
proof -
  have "Version_rows (db_file stale_v6) = [6]"
    by (simp add: stale_v6_def storage_v6_files)
  moreover have "dom (backups stale_v6) = {3}"
    by (simp add: stale_v6_def)
  moreover have "run_migration 6 stale_v6 = Return () migrated_stale_v6"
    by (simp add: migrated_stale_v6_def stale_v6_def storage_v6_def state_of_def migrator_defs
        upto_rec1 [of 1])
  moreover have "dom (backups migrated_stale_v6) = {3, 7}"
    by (simp add: migrated_stale_v6_def stale_v6_def storage_v6_def state_of_def migrator_defs
        upto_rec1 [of 1] insert_commute)
  moreover have "Version_rows (db_file migrated_stale_v6) = [8]"
    by (simp add: migrated_stale_v6_def stale_v6_def storage_v6_def state_of_def migrator_defs
        upto_rec1 [of 1])
  ultimately show ?thesis by (intro conjI)
qed

subsection \<open>Tag reuse, for every store\<close>

text \<open>A tag whose lower-cased name is the name of a Tag row, and which the record does not
  have yet, makes \<^verbatim>\<open>set_tags_for_record\<close> raise, and the store is left as it was.\<close>

lemma existing_tag_of_other_record_raises:
  assumes "x \<noteq> []" and "str_lower x \<in> snd ` set (Tag_rows db)"
      and "str_lower x \<notin> set (get_tags_for_record b db)"
  shows "set_tags_for_record b [x] db = Raise IntegrityError db"
  using assms by (simp add: set_tags_for_record_def add_tag_def str_lower_idem Let_def)

subsection \<open>The backups, whatever the outcome\<close>

text \<open>After \<^verbatim>\<open>_backup_database(a)\<close>, and so after the loop over the versions a to b, whether
  it returns or raises, there is one backup file, when before there was none but of the
  versions a - 1 and a.\<close>

lemma dom_backup:
  assumes "\<forall>n \<in> dom (backups st). 1 \<le> n \<and> (n = a - 1 \<or> n = a)"
  shows "dom (backups (backup_database a st)) = {a}"
proof -
  have "backups (backup_database a st) n \<noteq> None \<longleftrightarrow> n = a" for n
  proof (cases "n = a")
    case True
    then show ?thesis by (simp add: backups_backup)
  next
    case False
    show ?thesis
    proof (cases "backups st n")
      case None
      with False show ?thesis by (simp add: backups_backup)
    next
      case (Some d)
      then have "n \<in> dom (backups st)" by auto
      with assms False have "1 \<le> n \<and> n = a - 1" by blast
      with False show ?thesis by (simp add: backups_backup)
    qed
  qed
  then show ?thesis by (auto simp: dom_def)
qed

lemma one_backup_at_every_outcome:
  assumes "1 \<le> a" and "a \<le> b"
      and "\<forall>n \<in> dom (backups st). 1 \<le> n \<and> (n = a - 1 \<or> n = a)"
  shows "\<exists>k. a \<le> k \<and> k \<le> b \<and> dom (backups (state_of (migration_loop m [a..b] st))) = {k}"
  using assms
proof (induction "nat (b - a)" arbitrary: a st)
  case 0
  then have "[a..b] = [a]" by simp
  with dom_backup [OF "0.prems"(3)] "0.prems"(2) show ?case
    by (auto simp: Let_def state_of_def split: option.splits result.splits)
next
  case (Suc n)
  then have lt: "a < b" by simp
  then have list: "[a..b] = a # [a + 1..b]" by (simp add: upto_rec1)
  let ?st1 = "backup_database a st"
  have d1: "dom (backups ?st1) = {a}"
    by (rule dom_backup [OF Suc.prems(3)])
  show ?case
  proof (cases "m a")
    case None
    with d1 lt show ?thesis
      by (auto simp: list Let_def state_of_def)
  next
    case (Some migration)
    show ?thesis
    proof (cases "migration (db_file ?st1)")
      case (Raise e db')
      with Some d1 lt show ?thesis
        by (auto simp: list Let_def state_of_def)
    next
      case (Return u db')
      have n: "n = nat (b - (a + 1))" using Suc.hyps(2) by simp
      have "\<forall>k \<in> dom (backups (?st1\<lparr>db_file := db'\<rparr>)). 1 \<le> k \<and> (k = a + 1 - 1 \<or> k = a + 1)"
        using d1 Suc.prems(1) by simp
      from Suc.hyps(1) [OF n _ _ this] lt Suc.prems(1)
      obtain k where "a + 1 \<le> k" "k \<le> b"
        "dom (backups (state_of (migration_loop m [a + 1..b] (?st1\<lparr>db_file := db'\<rparr>)))) = {k}"
        by auto
      with Some Return show ?thesis
        by (auto simp: list Let_def intro!: exI [of _ k])
    qed
  qed
qed

end
